theory Spec2Isabelle
  imports Main
begin

section \<open>JavaScript values and the operations the client uses on them\<close>

text \<open>
  The Ollama client (\<^verbatim>\<open>ollamaApp.ts\<close>) decodes the backend's reply with
  \<^verbatim>\<open>JSON.parse\<close> and reads it through values typed \<^verbatim>\<open>any\<close>. A parsed value
  is a \<open>json\<close> tree; a JavaScript value that may also be \<^verbatim>\<open>undefined\<close> is a
  \<open>json option\<close>, with \<open>None\<close> for \<^verbatim>\<open>undefined\<close>. Numbers are restricted to
  integers: the client never computes with them. An object is an association list, read
  with \<open>map_of\<close>. A string is a list of code units.
\<close>

datatype json =
    JNull
  | JBool bool
  | JNum int
  | JStr string
  | JArr "json list"
  | JObj "(string \<times> json) list"

type_synonym jsval = "json option"

text \<open>
  A thrown value: the constructor's name and the message. \<^verbatim>\<open>`${error}`\<close> renders it as
  \<^verbatim>\<open>name: message\<close>.
\<close>

datatype exn = Exn string string

fun error_to_string :: "exn \<Rightarrow> string" where
  "error_to_string (Exn n m) = (if m = [] then n else n @ '': '' @ m)"

definition TypeError :: exn where
  "TypeError = Exn ''TypeError'' ''Cannot read properties of undefined''"

definition NotAFunction :: exn where
  "NotAFunction = Exn ''TypeError'' ''functionName.startsWith is not a function''"

definition SyntaxError :: exn where
  "SyntaxError = Exn ''SyntaxError'' ''Unexpected token''"

text \<open>Truthiness, as \<^verbatim>\<open>if (v)\<close> and \<^verbatim>\<open>a && b\<close> test it.\<close>

fun truthy :: "jsval \<Rightarrow> bool" where
  "truthy None = False"
| "truthy (Some JNull) = False"
| "truthy (Some (JBool b)) = b"
| "truthy (Some (JNum n)) = (n \<noteq> 0)"
| "truthy (Some (JStr s)) = (s \<noteq> [])"
| "truthy (Some (JArr xs)) = True"
| "truthy (Some (JObj kvs)) = True"

text \<open>
  \<^verbatim>\<open>v.key\<close> for the keys this program reads (\<^verbatim>\<open>message\<close>, \<^verbatim>\<open>tool_calls\<close>,
  \<^verbatim>\<open>content\<close>, \<^verbatim>\<open>function\<close>, \<^verbatim>\<open>name\<close>, \<^verbatim>\<open>arguments\<close>): a
  \<^verbatim>\<open>TypeError\<close> on \<^verbatim>\<open>null\<close> and \<^verbatim>\<open>undefined\<close>, the member of an object,
  \<^verbatim>\<open>undefined\<close> on every other value (none of these keys is a property of a string, a
  number, a boolean or an array).
\<close>

fun js_get :: "jsval \<Rightarrow> string \<Rightarrow> exn + jsval" where
  "js_get None k = Inl TypeError"
| "js_get (Some JNull) k = Inl TypeError"
| "js_get (Some (JObj kvs)) k = Inr (map_of kvs k)"
| "js_get (Some v) k = Inr None"

text \<open>
  \<^verbatim>\<open>v[0]\<close> on a truthy value: the first element of an array, the first code unit of a
  string, the member \<^verbatim>\<open>"0"\<close> of an object, \<^verbatim>\<open>undefined\<close> otherwise.
\<close>

fun js_index0 :: "jsval \<Rightarrow> exn + jsval" where
  "js_index0 None = Inl TypeError"
| "js_index0 (Some JNull) = Inl TypeError"
| "js_index0 (Some (JArr [])) = Inr None"
| "js_index0 (Some (JArr (x # xs))) = Inr (Some x)"
| "js_index0 (Some (JStr [])) = Inr None"
| "js_index0 (Some (JStr (c # cs))) = Inr (Some (JStr [c]))"
| "js_index0 (Some (JObj kvs)) = Inr (map_of kvs ''0'')"
| "js_index0 (Some v) = Inr None"

text \<open>\<^verbatim>\<open>typeof v === 'object'\<close>: objects, arrays and \<^verbatim>\<open>null\<close>.\<close>

fun typeof_object :: "jsval \<Rightarrow> bool" where
  "typeof_object (Some JNull) = True"
| "typeof_object (Some (JArr xs)) = True"
| "typeof_object (Some (JObj kvs)) = True"
| "typeof_object v = False"

section \<open>The world outside the program\<close>

text \<open>
  A message of the conversation history (\<^verbatim>\<open>MessageType\<close>) and the invocation record an
  assistant message carries (\<^verbatim>\<open>ToolCall\<close>). \<open>None\<close> is an absent field, or
  \<^verbatim>\<open>null\<close> for \<open>content\<close>. The name and the arguments of an invocation are whatever
  the backend sent, so they are JavaScript values.
\<close>

datatype MessageRole = SYSTEM | USER | ASSISTANT | TOOL

record ToolCall =
  tc_id :: string
  tc_name :: jsval
  tc_arguments :: jsval

record MessageType =
  role :: MessageRole
  content :: "string option"
  tool_calls :: "ToolCall list option"
  tool_call_id :: "string option"
  name :: jsval

text \<open>A tool as advertised to the model (\<^verbatim>\<open>ToolDefinition\<close>), and as the provider lists it.\<close>

record ToolDefinition =
  td_type :: string
  td_name :: string
  td_description :: string
  td_parameters :: json

record McpTool =
  mt_name :: string
  mt_description :: "string option"
  mt_inputSchema :: "json option"

text \<open>
  What \<^verbatim>\<open>listTools\<close> resolves to: an object whose \<^verbatim>\<open>tools\<close> member may be missing.
  The SDK validates the provider's answer against its schema, so the list is typed.
\<close>

record McpCatalog =
  tools :: "McpTool list option"

text \<open>The body of the POST to \<^verbatim>\<open>/api/chat\<close>, and what \<^verbatim>\<open>fetch\<close> does with it.\<close>

record ChatRequest =
  rq_model :: string
  rq_messages :: "MessageType list"
  rq_tools :: "ToolDefinition list option"

datatype FetchOutcome =
    FetchThrows exn
  | Response nat "exn + string"

text \<open>
  Everything the program calls and does not define: the built-ins \<^verbatim>\<open>JSON.parse\<close>,
  \<^verbatim>\<open>JSON.stringify\<close> and string conversion, the chat backend behind \<^verbatim>\<open>fetch\<close>, and
  the MCP SDK's transport and client. The backend's answer may depend on how many chat
  requests came before (its first argument), so the same request can be answered
  differently each time. A constructor or call of the SDK that fails is \<open>Some e\<close> or
  \<open>Inl e\<close>.
\<close>

record world =
  json_parse :: "string \<Rightarrow> exn + json"
  json_stringify :: "json \<Rightarrow> string"
  to_string :: "json \<Rightarrow> string"
  fetch_chat :: "nat \<Rightarrow> ChatRequest \<Rightarrow> FetchOutcome"
  fetch_tags :: FetchOutcome
  new_transport :: "exn option"
  new_client :: "exn option"
  client_connect :: "exn option"
  client_close :: "exn option"
  client_listTools :: "exn + McpCatalog"
  client_callTool :: "string \<Rightarrow> json \<Rightarrow> exn + jsval"

text \<open>String conversion of a value appended to a string or handed to \<^verbatim>\<open>JSON.parse\<close>.\<close>

fun js_string :: "world \<Rightarrow> jsval \<Rightarrow> string" where
  "js_string w None = ''undefined''"
| "js_string w (Some JNull) = ''null''"
| "js_string w (Some (JBool b)) = (if b then ''true'' else ''false'')"
| "js_string w (Some (JStr s)) = s"
| "js_string w (Some v) = to_string w v"

text \<open>\<^verbatim>\<open>JSON.stringify(v)\<close>: \<^verbatim>\<open>undefined\<close> for \<^verbatim>\<open>undefined\<close>.\<close>

fun js_stringify :: "world \<Rightarrow> jsval \<Rightarrow> string option" where
  "js_stringify w None = None"
| "js_stringify w (Some v) = Some (json_stringify w v)"

text \<open>A number appended to a string: its decimal numeral.\<close>

definition digit_char :: "nat \<Rightarrow> char" where
  "digit_char d = char_of (48 + d)"

function show_nat :: "nat \<Rightarrow> string" where
  "show_nat n = (if n < 10 then [digit_char n] else show_nat (n div 10) @ [digit_char (n mod 10)])"
  by pat_completeness auto
termination
  by (relation "measure id") auto

declare show_nat.simps [simp del]

section \<open>Chat transport: \<^verbatim>\<open>OllamaAPIClient\<close>\<close>

text \<open>What \<^verbatim>\<open>chat\<close> resolves to: a string, or a function-call object.\<close>

datatype ChatResult =
    Text string
  | FunctionCall json

text \<open>
  \<^verbatim>\<open>responseText.trim().split('\n')\<close>, with the white space of ASCII (the backend's
  replies end in line feeds).
\<close>

definition is_space :: "char \<Rightarrow> bool" where
  "is_space c = (c \<in> set [CHR '' '', CHR 0x09, CHR 0x0A, CHR 0x0B, CHR 0x0C, CHR 0x0D])"

definition trim :: "string \<Rightarrow> string" where
  "trim s = rev (dropWhile is_space (rev (dropWhile is_space s)))"

fun split_lines :: "string \<Rightarrow> string list" where
  "split_lines [] = [[]]"
| "split_lines (c # cs) =
     (if c = CHR 0x0A then [] # split_lines cs
      else (case split_lines cs of
              [] \<Rightarrow> [[c]]
            | l # ls \<Rightarrow> (c # l) # ls))"

text \<open>
  One pass of the loop body of \<^verbatim>\<open>_processResponse\<close>, inside its \<^verbatim>\<open>try\<close>: either the
  function returns, or the loop goes on with the accumulated text. A guard
  \<^verbatim>\<open>a && a.b\<close> reads \<^verbatim>\<open>a.b\<close> only when \<^verbatim>\<open>a\<close> is truthy and is \<^verbatim>\<open>a\<close> itself
  otherwise.
\<close>

datatype LineStep = Return ChatResult | Continue string

definition js_and_get :: "jsval \<Rightarrow> string \<Rightarrow> exn + jsval" where
  "js_and_get a k = (if truthy a then js_get a k else Inr a)"

definition decode_line :: "world \<Rightarrow> string \<Rightarrow> string \<Rightarrow> exn + LineStep" where
  "decode_line w fullResponse line =
     (case json_parse w line of
        Inl e \<Rightarrow> Inl e
      | Inr respJson \<Rightarrow>
     (case js_get (Some respJson) ''message'' of
        Inl e \<Rightarrow> Inl e
      | Inr message \<Rightarrow>
     (case js_and_get message ''tool_calls'' of
        Inl e \<Rightarrow> Inl e
      | Inr tcs \<Rightarrow>
     (case (if truthy tcs then js_index0 tcs else Inr None) of
        Inl e \<Rightarrow> Inl e
      | Inr functionCall \<Rightarrow>
     (case (if truthy functionCall then functionCall else None) of
        Some fc \<Rightarrow> Inr (Return (FunctionCall fc))
      | None \<Rightarrow>
     (case js_and_get message ''content'' of
        Inl e \<Rightarrow> Inl e
      | Inr c \<Rightarrow>
          if truthy c then Inr (Continue (fullResponse @ js_string w c))
          else Inr (Continue fullResponse)))))))"

text \<open>The loop: a line whose body throws is logged and skipped.\<close>

fun process_lines :: "world \<Rightarrow> string \<Rightarrow> string list \<Rightarrow> ChatResult" where
  "process_lines w fullResponse [] = Text fullResponse"
| "process_lines w fullResponse (line # lines) =
     (case decode_line w fullResponse line of
        Inl e \<Rightarrow> process_lines w fullResponse lines
      | Inr (Return r) \<Rightarrow> r
      | Inr (Continue fullResponse') \<Rightarrow> process_lines w fullResponse' lines)"

definition processResponse :: "world \<Rightarrow> string \<Rightarrow> ChatResult" where
  "processResponse w responseText = process_lines w [] (split_lines (trim responseText))"

text \<open>\<^verbatim>\<open>try { body } catch (error) { handler }\<close> on a computation that may throw.\<close>

definition try_catch :: "exn + 'a \<Rightarrow> (exn \<Rightarrow> exn + 'a) \<Rightarrow> exn + 'a" where
  "try_catch body handler = (case body of Inl e \<Rightarrow> handler e | Inr v \<Rightarrow> Inr v)"

text \<open>
  \<^verbatim>\<open>OllamaAPIClient.chat\<close>, as the \<open>n\<close>-th request the backend sees. No caller passes
  \<^verbatim>\<open>options\<close>. Reading the body (\<^verbatim>\<open>response.text()\<close>) can throw as well.
\<close>

definition chat ::
  "world \<Rightarrow> nat \<Rightarrow> string \<Rightarrow> MessageType list \<Rightarrow> ToolDefinition list option \<Rightarrow> exn + ChatResult" where
  "chat w n model msgs tool_defs =
     try_catch
       (case fetch_chat w n \<lparr>rq_model = model, rq_messages = msgs, rq_tools = tool_defs\<rparr> of
          FetchThrows e \<Rightarrow> Inl e
        | Response status body \<Rightarrow>
            if status \<noteq> 200
            then (case body of Inl e \<Rightarrow> Inl e | Inr responseText \<Rightarrow> Inr (Text []))
            else (case body of Inl e \<Rightarrow> Inl e
                  | Inr responseText \<Rightarrow> Inr (processResponse w responseText)))
       (\<lambda>error. Inr (Text []))"

text \<open>\<^verbatim>\<open>checkConnection\<close>: resolves to \<^verbatim>\<open>true\<close> or throws.\<close>

definition checkConnection :: "world \<Rightarrow> exn + bool" where
  "checkConnection w =
     try_catch
       (case fetch_tags w of
          FetchThrows e \<Rightarrow> Inl e
        | Response status body \<Rightarrow>
            if status \<noteq> 200 then Inl (Exn ''Error'' (''Error al conectarse: '' @ show_nat status))
            else Inr True)
       (\<lambda>error. Inl (Exn ''Error''
          (''No se pudo conectar al servidor de Ollama: '' @ (case error of Exn n m \<Rightarrow> m))))"

section \<open>Remote tool gateway: \<^verbatim>\<open>MCPClient\<close>\<close>

text \<open>
  The fields \<^verbatim>\<open>client\<close> and \<^verbatim>\<open>transport\<close> hold an object (\<open>True\<close>) or \<^verbatim>\<open>null\<close>
  (\<open>False\<close>). \<open>calls\<close> is a record, kept for the proofs only, of every
  \<^verbatim>\<open>callTool\<close> request handed to the SDK: the tool's name and its arguments.
\<close>

record MCPClient =
  client :: bool
  transport :: bool
  calls :: "(string \<times> json) list"

definition new_MCPClient :: MCPClient where
  "new_MCPClient = \<lparr>client = False, transport = False, calls = []\<rparr>"

text \<open>The gateway is disconnected when it holds neither a client nor a transport.\<close>

definition Disconnected :: "MCPClient \<Rightarrow> bool" where
  "Disconnected c = (\<not> client c \<and> \<not> transport c)"

text \<open>
  A method that mutates the object and may throw returns the outcome and the object as
  the throw or the return left it.
\<close>

definition disconnect_body :: "world \<Rightarrow> MCPClient \<Rightarrow> (exn + unit) \<times> MCPClient" where
  "disconnect_body w c =
     (if client c
      then (case client_close w of
              Some e \<Rightarrow> (Inl e, c)
            | None \<Rightarrow> (Inr (), c\<lparr>client := False, transport := False\<rparr>))
      else (Inr (), c\<lparr>transport := False\<rparr>))"

definition disconnect :: "world \<Rightarrow> MCPClient \<Rightarrow> (exn + unit) \<times> MCPClient" where
  "disconnect w c =
     (case disconnect_body w c of
        (Inl e, c') \<Rightarrow> (Inr (), c')
      | (Inr u, c') \<Rightarrow> (Inr u, c'))"

definition connect_body :: "world \<Rightarrow> MCPClient \<Rightarrow> (exn + bool) \<times> MCPClient" where
  "connect_body w c =
     (case new_transport w of
        Some e \<Rightarrow> (Inl e, c)
      | None \<Rightarrow>
     (case new_client w of
        Some e \<Rightarrow> (Inl e, c\<lparr>transport := True\<rparr>)
      | None \<Rightarrow>
     (case client_connect w of
        Some e \<Rightarrow> (Inl e, c\<lparr>transport := True, client := True\<rparr>)
      | None \<Rightarrow> (Inr True, c\<lparr>transport := True, client := True\<rparr>))))"

definition connect :: "world \<Rightarrow> MCPClient \<Rightarrow> (exn + bool) \<times> MCPClient" where
  "connect w c =
     (case connect_body w c of
        (Inl e, c') \<Rightarrow>
          (case disconnect w c' of
             (Inl e', c'') \<Rightarrow> (Inl e', c'')
           | (Inr u, c'') \<Rightarrow> (Inr False, c''))
      | (Inr b, c') \<Rightarrow> (Inr b, c'))"

text \<open>A failure while the provider process is spawned or during the handshake.\<close>

definition spawn_or_handshake_fails :: "world \<Rightarrow> bool" where
  "spawn_or_handshake_fails w =
     (\<not> (new_transport w = None \<and> new_client w = None \<and> client_connect w = None))"

definition NotConnected :: exn where
  "NotConnected = Exn ''Error'' ''Cliente no conectado. Llama a connect() primero''"

definition listTools :: "world \<Rightarrow> MCPClient \<Rightarrow> exn + McpCatalog" where
  "listTools w c =
     (if \<not> client c then Inl NotConnected
      else try_catch (client_listTools w) (\<lambda>e. Inl e))"

definition executeTool ::
  "world \<Rightarrow> string \<Rightarrow> json \<Rightarrow> MCPClient \<Rightarrow> (exn + jsval) \<times> MCPClient" where
  "executeTool w toolName args c =
     (if \<not> client c then (Inl NotConnected, c)
      else (try_catch (client_callTool w toolName args) (\<lambda>e. Inl e),
            c\<lparr>calls := calls c @ [(toolName, args)]\<rparr>))"

section \<open>Tool registry: \<^verbatim>\<open>ToolManager\<close>\<close>

definition convert_tool :: "McpTool \<Rightarrow> ToolDefinition" where
  "convert_tool mcpTool =
     \<lparr>td_type = ''function'',
      td_name = ''mcp_'' @ mt_name mcpTool,
      td_description =
        (case mt_description mcpTool of
           None \<Rightarrow> ''MCP tool: '' @ mt_name mcpTool
         | Some d \<Rightarrow> if d = [] then ''MCP tool: '' @ mt_name mcpTool else d),
      td_parameters =
        (case mt_inputSchema mcpTool of
           None \<Rightarrow> JObj [(''type'', JStr ''object'')]
         | Some sch \<Rightarrow> if truthy (Some sch) then sch else JObj [(''type'', JStr ''object'')])\<rparr>"

definition getAllTools :: "ToolDefinition list \<Rightarrow> McpCatalog option \<Rightarrow> ToolDefinition list" where
  "getAllTools builtInTools mcpTools =
     builtInTools @
     (case mcpTools of
        None \<Rightarrow> []
      | Some cat \<Rightarrow> (case tools cat of None \<Rightarrow> [] | Some ts \<Rightarrow> map convert_tool ts))"

text \<open>The constructor of \<^verbatim>\<open>ToolManager\<close> leaves the built-in tools empty.\<close>

definition builtInTools :: "ToolDefinition list" where
  "builtInTools = []"

section \<open>Orchestrator: \<^verbatim>\<open>OllamaAgent\<close>\<close>

text \<open>
  \<open>requests\<close> is a record, kept for the proofs only, of every request posted to the
  chat backend.
\<close>

record OllamaAgent =
  mcpClient :: MCPClient
  toolsMCP :: "McpCatalog option"
  requests :: "ChatRequest list"

definition new_OllamaAgent :: OllamaAgent where
  "new_OllamaAgent = \<lparr>mcpClient = new_MCPClient, toolsMCP = None, requests = []\<rparr>"

text \<open>\<^verbatim>\<open>setup\<close> either ends the process (\<^verbatim>\<open>process.exit(1)\<close>) or returns.\<close>

datatype 'a Process = Exited nat | Running 'a

definition agent_setup :: "world \<Rightarrow> OllamaAgent \<Rightarrow> OllamaAgent Process" where
  "agent_setup w a =
     (case checkConnection w of
        Inl e \<Rightarrow> Exited 1
      | Inr ok \<Rightarrow>
     (case connect w (mcpClient a) of
        (Inl e, c') \<Rightarrow> Running (a\<lparr>mcpClient := c', toolsMCP := None\<rparr>)
      | (Inr connected, c') \<Rightarrow>
          if connected
          then (case listTools w c' of
                  Inl e \<Rightarrow> Running (a\<lparr>mcpClient := c', toolsMCP := None\<rparr>)
                | Inr ts \<Rightarrow> Running (a\<lparr>mcpClient := c', toolsMCP := Some ts\<rparr>))
          else Running (a\<lparr>mcpClient := c'\<rparr>)))"

definition McpUnavailable :: exn where
  "McpUnavailable = Exn ''Error'' ''MCP Client not connected or tools not available''"

definition executeMcpTool ::
  "world \<Rightarrow> string \<Rightarrow> json \<Rightarrow> OllamaAgent \<Rightarrow> (exn + jsval) \<times> OllamaAgent" where
  "executeMcpTool w toolName args a =
     (if toolsMCP a = None then (Inl McpUnavailable, a)
      else (case executeTool w toolName args (mcpClient a) of
              (r, c') \<Rightarrow> (try_catch r (\<lambda>e. Inl e), a\<lparr>mcpClient := c'\<rparr>)))"

definition agent_chat ::
  "world \<Rightarrow> string \<Rightarrow> MessageType list \<Rightarrow> OllamaAgent \<Rightarrow> (exn + ChatResult) \<times> OllamaAgent" where
  "agent_chat w model msgs a =
     (let tool_defs = getAllTools builtInTools (toolsMCP a)
      in (chat w (length (requests a)) model msgs (Some tool_defs),
          a\<lparr>requests := requests a @
               [\<lparr>rq_model = model, rq_messages = msgs, rq_tools = Some tool_defs\<rparr>]\<rparr>))"

section \<open>Dispatch: \<^verbatim>\<open>executeFunction\<close>\<close>

definition starts_with :: "string \<Rightarrow> string \<Rightarrow> bool" where
  "starts_with p s = (take (length p) s = p)"

definition not_implemented :: "string \<Rightarrow> string" where
  "not_implemented functionName = ''Funci'' @ [CHR 0xF3] @ ''n '' @ functionName @ '' no implementada''"

text \<open>
  The result is a string, or \<^verbatim>\<open>undefined\<close> when \<^verbatim>\<open>JSON.stringify\<close> is given
  \<^verbatim>\<open>undefined\<close>. A name that is not a string has no \<^verbatim>\<open>startsWith\<close>: the outer
  \<^verbatim>\<open>catch\<close> turns the \<^verbatim>\<open>TypeError\<close> into a result.
\<close>

definition executeFunction ::
  "world \<Rightarrow> jsval \<Rightarrow> json \<Rightarrow> OllamaAgent \<Rightarrow> string option \<times> OllamaAgent" where
  "executeFunction w functionName functionArgs a =
     (case functionName of
        Some (JStr fname) \<Rightarrow>
          if starts_with ''mcp_'' fname
          then (let actualToolName = drop 4 fname in
                (case executeMcpTool w actualToolName functionArgs a of
                   (Inl e, a') \<Rightarrow>
                     (Some (''Error ejecutando la herramienta MCP '' @ actualToolName @ '': ''
                            @ error_to_string e), a')
                 | (Inr result, a') \<Rightarrow> (js_stringify w result, a')))
          else (Some (not_implemented fname), a)
      | _ \<Rightarrow>
          (Some (''Error ejecutando la funci'' @ [CHR 0xF3] @ ''n: '' @
             error_to_string (if functionName = None \<or> functionName = Some JNull
                              then TypeError else NotAFunction)), a))"

section \<open>Turn processing: \<^verbatim>\<open>processFunctionCall\<close>\<close>

text \<open>\<^verbatim>\<open>"call_" + messages.length\<close>.\<close>

definition call_id :: "nat \<Rightarrow> string" where
  "call_id n = ''call_'' @ show_nat n"

text \<open>
  The arguments as the handler gets them: an object is taken as it is, anything else
  goes through \<^verbatim>\<open>JSON.parse\<close>, and a failure leaves the empty object.
\<close>

definition parse_arguments :: "world \<Rightarrow> jsval \<Rightarrow> json" where
  "parse_arguments w argsStr =
     (if typeof_object argsStr
      then (case argsStr of Some v \<Rightarrow> v | None \<Rightarrow> JObj [])
      else (case json_parse w (js_string w argsStr) of Inl e \<Rightarrow> JObj [] | Inr v \<Rightarrow> v))"

text \<open>The arguments as the history records them.\<close>

definition encode_arguments :: "world \<Rightarrow> jsval \<Rightarrow> jsval" where
  "encode_arguments w argsStr =
     (if \<not> typeof_object argsStr then map_option JStr (js_stringify w argsStr) else argsStr)"

text \<open>The object literals pushed on the history.\<close>

definition assistant_call :: "string \<Rightarrow> jsval \<Rightarrow> jsval \<Rightarrow> MessageType" where
  "assistant_call functionCallId functionName arguments =
     \<lparr>role = ASSISTANT, content = None,
      tool_calls = Some [\<lparr>tc_id = functionCallId, tc_name = functionName, tc_arguments = arguments\<rparr>],
      tool_call_id = None, name = None\<rparr>"

definition tool_result :: "string \<Rightarrow> jsval \<Rightarrow> string \<Rightarrow> MessageType" where
  "tool_result functionCallId functionName functionResult =
     \<lparr>role = TOOL, content = Some functionResult, tool_calls = None,
      tool_call_id = Some functionCallId, name = functionName\<rparr>"

definition plain :: "MessageRole \<Rightarrow> string \<Rightarrow> MessageType" where
  "plain r txt = \<lparr>role = r, content = Some txt, tool_calls = None, tool_call_id = None, name = None\<rparr>"

text \<open>
  The history and the agent, both mutated in place by the source. A run either returns
  or has used up its fuel: the recursion of \<^verbatim>\<open>processFunctionCall\<close> has no bound, and
  \<open>OutOfFuel\<close> holds the state at which the next recursive call was due.
\<close>

record Session =
  messages :: "MessageType list"
  agent :: OllamaAgent

datatype 'a Run = Returned 'a | OutOfFuel 'a

fun run_state :: "'a Run \<Rightarrow> 'a" where
  "run_state (Returned s) = s"
| "run_state (OutOfFuel s) = s"

definition NoResult :: string where
  "NoResult = ''Error: Funci'' @ [CHR 0xF3] @ ''n no implementada o fall'' @ [CHR 0xF3] @ '' la ejecuci'' @ [CHR 0xF3] @ ''n''"

text \<open>
  The whole body is inside one \<^verbatim>\<open>try\<close>: whatever throws is logged and the function
  returns with the history as it is then.
\<close>

fun processFunctionCall :: "world \<Rightarrow> nat \<Rightarrow> string \<Rightarrow> json \<Rightarrow> Session \<Rightarrow> Session Run" where
  "processFunctionCall w 0 modelName functionCall s = OutOfFuel s"
| "processFunctionCall w (Suc fuel) modelName functionCall s =
     (case js_get (Some functionCall) ''function'' of
        Inl e \<Rightarrow> Returned s
      | Inr fn \<Rightarrow>
     (case js_get fn ''name'' of
        Inl e \<Rightarrow> Returned s
      | Inr functionName \<Rightarrow>
     (let functionArgs =
            (case js_get fn ''arguments'' of
               Inl e \<Rightarrow> JObj []
             | Inr argsStr \<Rightarrow> parse_arguments w argsStr);
          functionCallId = call_id (length (messages s))
      in
     (case executeFunction w functionName functionArgs (agent s) of
        (r, a') \<Rightarrow>
     (let functionResult = (case r of None \<Rightarrow> NoResult | Some res \<Rightarrow> res)
      in
     (case js_get fn ''arguments'' of
        Inl e \<Rightarrow> Returned (s\<lparr>agent := a'\<rparr>)
      | Inr argsStr \<Rightarrow>
     (let msgs = messages s @
            [assistant_call functionCallId functionName (encode_arguments w argsStr),
             tool_result functionCallId functionName functionResult]
      in
     (case agent_chat w modelName msgs a' of
        (Inl e, a'') \<Rightarrow> Returned \<lparr>messages = msgs, agent = a''\<rparr>
      | (Inr (FunctionCall fc'), a'') \<Rightarrow>
          processFunctionCall w fuel modelName fc' \<lparr>messages = msgs, agent = a''\<rparr>
      | (Inr (Text finalResponse), a'') \<Rightarrow>
          Returned \<lparr>messages = msgs @ [plain ASSISTANT finalResponse], agent = a''\<rparr>))))))))"

section \<open>The interactive session: \<^verbatim>\<open>interactiveChat\<close>\<close>

definition DEFAULT_MODEL :: string where
  "DEFAULT_MODEL = ''mistral:latest''"

definition system_prompt :: string where
  "system_prompt = ''Eres un agente que consultar'' @ [CHR 0xE1] @ '' las tools que est'' @ [CHR 0xE1]
     @ ''n disponibles en la conversaci'' @ [CHR 0xF3] @ ''n''"

definition to_lower :: "string \<Rightarrow> string" where
  "to_lower s = map (\<lambda>c. if 65 \<le> (of_char c :: nat) \<and> (of_char c :: nat) \<le> 90
                          then char_of ((of_char c :: nat) + 32) else c) s"

text \<open>
  The \<^verbatim>\<open>while (true)\<close> loop over the lines the user types. The list holds the lines
  typed so far; when it is used up the loop is waiting for the next one. An exception
  in the loop body ends the loop (the \<^verbatim>\<open>try\<close> is around the \<^verbatim>\<open>while\<close>).
\<close>

fun chat_loop :: "world \<Rightarrow> nat \<Rightarrow> string \<Rightarrow> string list \<Rightarrow> Session \<Rightarrow> Session Run" where
  "chat_loop w fuel modelName [] s = Returned s"
| "chat_loop w fuel modelName (userMessage # inputs) s =
     (if to_lower userMessage \<in> set [''/salir'', ''/exit'', ''/quit''] then Returned s
      else
     (let msgs = messages s @ [plain USER userMessage]
      in
     (case agent_chat w modelName msgs (agent s) of
        (Inl e, a') \<Rightarrow> Returned \<lparr>messages = msgs, agent = a'\<rparr>
      | (Inr (FunctionCall fc), a') \<Rightarrow>
          (case processFunctionCall w fuel modelName fc \<lparr>messages = msgs, agent = a'\<rparr> of
             OutOfFuel s' \<Rightarrow> OutOfFuel s'
           | Returned s' \<Rightarrow> chat_loop w fuel modelName inputs s')
      | (Inr (Text response), a') \<Rightarrow>
          if response \<noteq> []
          then chat_loop w fuel modelName inputs
                 \<lparr>messages = msgs @ [plain ASSISTANT response], agent = a'\<rparr>
          else chat_loop w fuel modelName inputs \<lparr>messages = msgs, agent = a'\<rparr>)))"

text \<open>
  The model is the default one when the backend lists it, the first listed one
  otherwise; with no model at all the function returns before the chat starts.
\<close>

definition interactiveChat ::
  "world \<Rightarrow> nat \<Rightarrow> string list \<Rightarrow> string list \<Rightarrow> OllamaAgent \<Rightarrow> Session Run" where
  "interactiveChat w fuel models inputs a =
     (if DEFAULT_MODEL \<in> set models
      then chat_loop w fuel DEFAULT_MODEL inputs \<lparr>messages = [plain SYSTEM system_prompt], agent = a\<rparr>
      else (case models of
              [] \<Rightarrow> Returned \<lparr>messages = [], agent = a\<rparr>
            | m # ms \<Rightarrow>
                chat_loop w fuel m inputs \<lparr>messages = [plain SYSTEM system_prompt], agent = a\<rparr>))"

section \<open>The decoding rule, as the specification words it\<close>

text \<open>
  A record of the chat protocol: when the line parses to an object whose
  \<^verbatim>\<open>message\<close> is an object, its \<^verbatim>\<open>tool_calls\<close> (if there and not \<^verbatim>\<open>null\<close>) is an
  array of invocation objects and its \<^verbatim>\<open>content\<close> (if there and not \<^verbatim>\<open>null\<close>) is a
  string. Lines that do not parse, or parse to anything else, are not restricted.
\<close>

fun is_object :: "json \<Rightarrow> bool" where
  "is_object (JObj kvs) = True"
| "is_object v = False"

fun invocation_list :: "jsval \<Rightarrow> bool" where
  "invocation_list None = True"
| "invocation_list (Some JNull) = True"
| "invocation_list (Some (JArr xs)) = list_all is_object xs"
| "invocation_list (Some v) = False"

fun text_member :: "jsval \<Rightarrow> bool" where
  "text_member None = True"
| "text_member (Some JNull) = True"
| "text_member (Some (JStr s)) = True"
| "text_member (Some v) = False"

definition message_of :: "world \<Rightarrow> string \<Rightarrow> (string \<times> json) list option" where
  "message_of w line =
     (case json_parse w line of
        Inr (JObj kvs) \<Rightarrow> (case map_of kvs ''message'' of Some (JObj m) \<Rightarrow> Some m | _ \<Rightarrow> None)
      | _ \<Rightarrow> None)"

definition wire_record :: "world \<Rightarrow> string \<Rightarrow> bool" where
  "wire_record w line =
     (case message_of w line of
        None \<Rightarrow> True
      | Some m \<Rightarrow> invocation_list (map_of m ''tool_calls'') \<and> text_member (map_of m ''content''))"

text \<open>
  The first invocation of a line whose message carries a non-empty invocation list, and
  the content fragment of a line.
\<close>

definition line_invocation :: "world \<Rightarrow> string \<Rightarrow> json option" where
  "line_invocation w line =
     (case message_of w line of
        None \<Rightarrow> None
      | Some m \<Rightarrow> (case map_of m ''tool_calls'' of Some (JArr (fc # fcs)) \<Rightarrow> Some fc | _ \<Rightarrow> None))"

definition line_content :: "world \<Rightarrow> string \<Rightarrow> string" where
  "line_content w line =
     (case message_of w line of
        None \<Rightarrow> []
      | Some m \<Rightarrow> (case map_of m ''content'' of Some (JStr s) \<Rightarrow> s | _ \<Rightarrow> []))"

section \<open>Concrete worlds for the examples\<close>

text \<open>
  A world in which the backend refuses every connection, the provider starts and lists
  no tool, and no text parses. The examples change the parts they need.
\<close>

definition offline_world :: world where
  "offline_world =
     \<lparr>json_parse = (\<lambda>s. Inl SyntaxError),
      json_stringify = (\<lambda>v. ''{}''),
      to_string = (\<lambda>v. ''[object Object]''),
      fetch_chat = (\<lambda>n rq. FetchThrows (Exn ''FetchError'' ''connect ECONNREFUSED'')),
      fetch_tags = Response 200 (Inr ''{}''),
      new_transport = None,
      new_client = None,
      client_connect = None,
      client_close = None,
      client_listTools = Inr \<lparr>tools = Some []\<rparr>,
      client_callTool = (\<lambda>n args. Inr (Some (JObj [])))\<rparr>"

text \<open>The two replies of the specification's decoding examples, and a parser for their lines.\<close>

definition line_A :: string where
  \<open>line_A = ''{"message":{"content":"A"}}''\<close>

definition line_B :: string where
  \<open>line_B = ''{"message":{"content":"B"}}''\<close>

definition line_ignored :: string where
  \<open>line_ignored = ''{"message":{"content":"ignored"}}''\<close>

definition line_call :: string where
  \<open>line_call = ''{"message":{"tool_calls":[{"id":"x","function":{"name":"f","arguments":"{}"}}]}}''\<close>

definition call_f :: json where
  "call_f = JObj [(''id'', JStr ''x''),
                  (''function'', JObj [(''name'', JStr ''f''), (''arguments'', JStr ''{}'')])]"

definition wire_parse :: "string \<Rightarrow> exn + json" where
  "wire_parse line =
     (case map_of
        [(line_A, JObj [(''message'', JObj [(''content'', JStr ''A'')])]),
         (line_B, JObj [(''message'', JObj [(''content'', JStr ''B'')])]),
         (line_ignored, JObj [(''message'', JObj [(''content'', JStr ''ignored'')])]),
         (line_call, JObj [(''message'', JObj [(''tool_calls'', JArr [call_f])])])] line of
        Some v \<Rightarrow> Inr v
      | None \<Rightarrow> Inl SyntaxError)"

definition reply_AB :: string where
  "reply_AB = line_A @ [CHR 0x0A] @ line_B @ [CHR 0x0A]"

definition reply_call :: string where
  "reply_call = line_ignored @ [CHR 0x0A] @ line_call"

definition wire_world :: world where
  "wire_world = offline_world\<lparr>json_parse := wire_parse\<rparr>"

text \<open>A backend that answers every chat request with status 500.\<close>

definition failing_world :: world where
  "failing_world = offline_world\<lparr>fetch_chat := (\<lambda>n rq. Response 500 (Inr ''Internal Server Error''))\<rparr>"

text \<open>A provider whose handshake fails and whose client then fails to close.\<close>

definition stuck_world :: world where
  "stuck_world = offline_world
     \<lparr>client_connect := Some (Exn ''Error'' ''handshake failed''),
      client_close := Some (Exn ''Error'' ''close failed'')\<rparr>"

text \<open>A provider whose handshake fails and whose client closes.\<close>

definition refused_world :: world where
  "refused_world = offline_world\<lparr>client_connect := Some (Exn ''Error'' ''connect ENOENT'')\<rparr>"

text \<open>An agent after a successful \<^verbatim>\<open>setup\<close> against a provider that lists the tool \<open>lcm\<close>.\<close>

definition lcm_tool :: McpTool where
  "lcm_tool = \<lparr>mt_name = ''lcm'', mt_description = Some ''Least common multiple'',
               mt_inputSchema = None\<rparr>"

definition connected_agent :: OllamaAgent where
  "connected_agent =
     \<lparr>mcpClient = \<lparr>client = True, transport = True, calls = []\<rparr>,
      toolsMCP = Some \<lparr>tools = Some [lcm_tool]\<rparr>,
      requests = []\<rparr>"

section \<open>Histories: pairing of tool results and correlation ids\<close>

text \<open>
  Message \<open>i\<close> of a history, when it has the tool role, answers the assistant message
  right before it: that message carries one invocation, and its id is the tool message's
  \<^verbatim>\<open>tool_call_id\<close>.
\<close>

definition answers_previous :: "MessageType list \<Rightarrow> nat \<Rightarrow> bool" where
  "answers_previous h i =
     (role (h ! i) = TOOL \<longrightarrow>
        0 < i \<and> role (h ! (i - 1)) = ASSISTANT \<and>
        (\<exists>tc. tool_calls (h ! (i - 1)) = Some [tc] \<and> tool_call_id (h ! i) = Some (tc_id tc)))"

text \<open>
  Message \<open>i\<close>, when it carries invocations, is an assistant message with one invocation,
  and the next message is the tool message with that invocation's id.
\<close>

definition answered_next :: "MessageType list \<Rightarrow> nat \<Rightarrow> bool" where
  "answered_next h i =
     (\<forall>tcs. tool_calls (h ! i) = Some tcs \<longrightarrow>
        role (h ! i) = ASSISTANT \<and>
        (\<exists>tc. tcs = [tc] \<and> Suc i < length h \<and> role (h ! Suc i) = TOOL \<and>
              tool_call_id (h ! Suc i) = Some (tc_id tc)))"

definition paired_history :: "MessageType list \<Rightarrow> bool" where
  "paired_history h = (\<forall>i<length h. answers_previous h i \<and> answered_next h i)"

text \<open>
  The invocation ids of a history in order, and the positions of the messages that carry
  them. A message is pushed at the position that is the length of the history then.
\<close>

definition call_ids :: "MessageType list \<Rightarrow> string list" where
  "call_ids h = concat (map (\<lambda>m. case tool_calls m of None \<Rightarrow> [] | Some tcs \<Rightarrow> map tc_id tcs) h)"

definition call_positions :: "MessageType list \<Rightarrow> nat list" where
  "call_positions h = filter (\<lambda>i. tool_calls (h ! i) \<noteq> None) [0..<length h]"

definition ids_by_position :: "MessageType list \<Rightarrow> bool" where
  "ids_by_position h =
     (\<forall>i<length h. \<forall>tcs. tool_calls (h ! i) = Some tcs \<longrightarrow> map tc_id tcs = [call_id i])"

text \<open>Reading a decimal numeral back.\<close>

definition read_nat :: "string \<Rightarrow> nat" where
  "read_nat s = foldl (\<lambda>a c. 10 * a + (of_char c - 48)) 0 s"

section \<open>The scenarios of the examples\<close>

text \<open>
  The end-to-end scenario: the user asks for the least common multiple of 4 and 6, the
  model invokes the provider's tool \<open>lcm\<close> (advertised as \<open>mcp_lcm\<close>), and the backend
  then answers with text.
\<close>

definition line_final :: string where
  \<open>line_final = ''{"message":{"content":"El mcm de 4 y 6 es 12"}}''\<close>

definition lcm_result :: json where
  "lcm_result = JObj [(''content'', JArr [JObj [(''type'', JStr ''text''), (''text'', JStr ''12'')]])]"

definition lcm_result_text :: string where
  \<open>lcm_result_text = ''{"content":[{"type":"text","text":"12"}]}''\<close>

definition lcm_world :: world where
  "lcm_world = offline_world
     \<lparr>json_parse := (\<lambda>s. if s = line_final
                           then Inr (JObj [(''message'', JObj [(''content'', JStr ''El mcm de 4 y 6 es 12'')])])
                           else Inl SyntaxError),
      json_stringify := (\<lambda>v. if v = lcm_result then lcm_result_text else ''{}''),
      fetch_chat := (\<lambda>n rq. Response 200 (Inr line_final)),
      client_listTools := Inr \<lparr>tools = Some [lcm_tool]\<rparr>,
      client_callTool := (\<lambda>n args. if n = ''lcm'' then Inr (Some lcm_result)
                                     else Inl (Exn ''McpError'' ''Unknown tool''))\<rparr>"

definition lcm_args :: json where
  "lcm_args = JObj [(''numbers'', JArr [JNum 4, JNum 6])]"

definition lcm_call :: json where
  "lcm_call = JObj [(''function'', JObj [(''name'', JStr ''mcp_lcm''), (''arguments'', lcm_args)])]"


definition lcm_history :: "MessageType list" where
  "lcm_history = [plain SYSTEM system_prompt, plain USER ''compute lcm of 4 and 6'']"

definition lcm_session :: Session where
  "lcm_session = \<lparr>messages = lcm_history, agent = connected_agent\<rparr>"

definition lcm_turn :: "MessageType list" where
  "lcm_turn = lcm_history @
     [assistant_call ''call_2'' (Some (JStr ''mcp_lcm'')) (Some lcm_args),
      tool_result ''call_2'' (Some (JStr ''mcp_lcm'')) lcm_result_text]"

text \<open>
  A backend that asks for the invocation \<open>f\<close> on the first request and answers every
  later request with status 500.
\<close>

definition flaky_world :: world where
  "flaky_world = wire_world
     \<lparr>fetch_chat := (\<lambda>n rq. if n = 0 then Response 200 (Inr line_call)
                               else Response 500 (Inr ''Internal Server Error''))\<rparr>"




section \<open>Properties of the decoder\<close>

lemma split_lines_ne: "split_lines s \<noteq> []"
  by (cases s) (auto split: list.splits)

lemma decode_line_message:
  "json_parse w line = Inr (JObj kvs) \<Longrightarrow> map_of kvs ''message'' = Some (JObj m) \<Longrightarrow>
   decode_line w acc line =
     (case (if truthy (map_of m ''tool_calls'') then js_index0 (map_of m ''tool_calls'') else Inr None) of
        Inl e \<Rightarrow> Inl e
      | Inr functionCall \<Rightarrow>
     (case (if truthy functionCall then functionCall else None) of
        Some fc \<Rightarrow> Inr (Return (FunctionCall fc))
      | None \<Rightarrow>
          if truthy (map_of m ''content'')
          then Inr (Continue (acc @ js_string w (map_of m ''content'')))
          else Inr (Continue acc)))"
  by (simp add: decode_line_def js_and_get_def split: sum.splits option.splits)

lemma decode_line_other:
  "message_of w line = None \<Longrightarrow>
   decode_line w acc line = Inr (Continue acc) \<or> (\<exists>e. decode_line w acc line = Inl e)"
proof (cases "json_parse w line")
  case (Inl e)
  then show ?thesis by (simp add: decode_line_def)
next
  case (Inr v)
  assume none: "message_of w line = None"
  show ?thesis
  proof (cases v)
    case (JObj kvs)
    show ?thesis
    proof (cases "map_of kvs ''message''")
      case None
      with Inr JObj show ?thesis by (simp add: decode_line_def js_and_get_def)
    next
      case (Some mv)
      with none Inr JObj have "\<forall>m. mv \<noteq> JObj m"
        by (auto simp: message_of_def)
      with Some Inr JObj show ?thesis
        by (cases mv) (simp_all add: decode_line_def js_and_get_def)
    qed
  qed (use Inr in \<open>simp_all add: decode_line_def js_and_get_def\<close>)
qed

lemma message_ofD:
  "message_of w line = Some m \<Longrightarrow>
   \<exists>kvs. json_parse w line = Inr (JObj kvs) \<and> map_of kvs ''message'' = Some (JObj m)"
  by (auto simp: message_of_def split: sum.splits json.splits option.splits)

lemma invocation_list_cases:
  "invocation_list v \<Longrightarrow>
   (\<not> truthy v \<and> (v = None \<or> v = Some JNull)) \<or> v = Some (JArr []) \<or>
   (\<exists>kvs xs. v = Some (JArr (JObj kvs # xs)))"
proof (cases v)
  case None
  then show ?thesis by simp
next
  case (Some j)
  assume il: "invocation_list v"
  show ?thesis
  proof (cases j)
    case (JArr xs)
    show ?thesis
    proof (cases xs)
      case Nil
      with Some JArr show ?thesis by simp
    next
      case (Cons x xs')
      with il Some JArr have "is_object x" by simp
      then obtain kvs where "x = JObj kvs" by (cases x) simp_all
      with Some JArr Cons show ?thesis by simp
    qed
  qed (use il Some in simp_all)
qed

lemma text_member_cases:
  "text_member v \<Longrightarrow> v = None \<or> v = Some JNull \<or> (\<exists>s. v = Some (JStr s))"
  by (cases v rule: text_member.cases) simp_all

lemma decode_line_invocation:
  assumes "wire_record w line" and "line_invocation w line = Some fc"
  shows "decode_line w acc line = Inr (Return (FunctionCall fc))"
proof -
  from assms(2) obtain m where m: "message_of w line = Some m"
    by (auto simp: line_invocation_def split: option.splits)
  from assms(1) m have il: "invocation_list (map_of m ''tool_calls'')"
    by (simp add: wire_record_def)
  from assms(2) m obtain fcs where tc: "map_of m ''tool_calls'' = Some (JArr (fc # fcs))"
    by (auto simp: line_invocation_def split: option.splits json.splits list.splits)
  from il tc obtain kvs where fc: "fc = JObj kvs"
    by (cases fc) simp_all
  from message_ofD[OF m] obtain kvs' where
    "json_parse w line = Inr (JObj kvs')" "map_of kvs' ''message'' = Some (JObj m)" by blast
  then show ?thesis
    by (simp add: decode_line_message tc fc)
qed

lemma decode_line_content:
  assumes "wire_record w line" and "line_invocation w line = None"
  shows "decode_line w acc line = Inr (Continue (acc @ line_content w line)) \<or>
         (line_content w line = [] \<and> (\<exists>e. decode_line w acc line = Inl e))"
proof (cases "message_of w line")
  case None
  then have "line_content w line = []" by (simp add: line_content_def)
  with decode_line_other[OF None, of acc] show ?thesis by auto
next
  case (Some m)
  from assms(1) Some have il: "invocation_list (map_of m ''tool_calls'')"
    and tm: "text_member (map_of m ''content'')"
    by (simp_all add: wire_record_def)
  from message_ofD[OF Some] obtain kvs where
    p: "json_parse w line = Inr (JObj kvs)" "map_of kvs ''message'' = Some (JObj m)" by blast
  from assms(2) Some have no: "\<forall>x xs. map_of m ''tool_calls'' \<noteq> Some (JArr (x # xs))"
    by (auto simp: line_invocation_def split: option.splits json.splits list.splits)
  from invocation_list_cases[OF il] no
  have tc: "map_of m ''tool_calls'' = None \<or> map_of m ''tool_calls'' = Some JNull \<or>
            map_of m ''tool_calls'' = Some (JArr [])" by auto
  have lc: "line_content w line = (case map_of m ''content'' of Some (JStr s) \<Rightarrow> s | _ \<Rightarrow> [])"
    using Some by (simp add: line_content_def)
  from text_member_cases[OF tm] tc show ?thesis
    by (auto simp: decode_line_message[OF p] lc)
qed

lemma process_lines_decoding:
  "list_all (wire_record w) lines \<Longrightarrow>
   process_lines w acc lines =
     (case List.map_filter (line_invocation w) lines of
        fc # fcs \<Rightarrow> FunctionCall fc
      | [] \<Rightarrow> Text (acc @ concat (map (line_content w) lines)))"
proof (induction lines arbitrary: acc)
  case Nil
  then show ?case by simp
next
  case (Cons line lines)
  then have wr: "wire_record w line" and rest: "list_all (wire_record w) lines" by simp_all
  show ?case
  proof (cases "line_invocation w line")
    case (Some fc)
    from decode_line_invocation[OF wr Some, of acc] Some show ?thesis
      by simp
  next
    case None
    from decode_line_content[OF wr None, of acc] show ?thesis
    proof
      assume "decode_line w acc line = Inr (Continue (acc @ line_content w line))"
      with None Cons.IH[OF rest, of "acc @ line_content w line"] show ?thesis
        by (simp split: list.splits)
    next
      assume "line_content w line = [] \<and> (\<exists>e. decode_line w acc line = Inl e)"
      with None Cons.IH[OF rest, of acc] show ?thesis
        by (auto split: list.splits)
    qed
  qed
qed


text \<open>
  C3. On a reply whose lines are records of the chat protocol, the decoder returns the
  first invocation of the first line whose message carries a non-empty invocation list,
  whatever the other lines hold; when there is no such line it returns the contents of
  the lines, concatenated in order (a line that does not parse contributes nothing).
\<close>

theorem processResponse_decoding:
  assumes "list_all (wire_record w) (split_lines (trim responseText))"
  shows "processResponse w responseText =
     (case List.map_filter (line_invocation w) (split_lines (trim responseText)) of
        fc # fcs \<Rightarrow> FunctionCall fc
      | [] \<Rightarrow> Text (concat (map (line_content w) (split_lines (trim responseText)))))"
  using process_lines_decoding[OF assms, of "[]"]
  by (simp add: processResponse_def split: list.splits)

lemma lines_AB: "split_lines (trim reply_AB) = [line_A, line_B]"
  by (simp add: reply_AB_def trim_def is_space_def line_A_def line_B_def)

lemma lines_call: "split_lines (trim reply_call) = [line_ignored, line_call]"
  by (simp add: reply_call_def trim_def is_space_def line_ignored_def line_call_def)

lemma wire_world_parse: "json_parse wire_world = wire_parse"
  by (simp add: wire_world_def)

lemma wire_parse_A: "wire_parse line_A = Inr (JObj [(''message'', JObj [(''content'', JStr ''A'')])])"
  by (simp add: wire_parse_def)

lemma wire_parse_B: "wire_parse line_B = Inr (JObj [(''message'', JObj [(''content'', JStr ''B'')])])"
  by (simp add: wire_parse_def line_A_def line_B_def)

lemma wire_parse_ignored: "wire_parse line_ignored = Inr (JObj [(''message'', JObj [(''content'', JStr ''ignored'')])])"
  by (simp add: wire_parse_def line_A_def line_B_def line_ignored_def)

lemma wire_parse_call: "wire_parse line_call = Inr (JObj [(''message'', JObj [(''tool_calls'', JArr [call_f])])])"
  by (simp add: wire_parse_def line_A_def line_B_def line_ignored_def line_call_def)

lemma message_of_A: "message_of wire_world line_A = Some [(''content'', JStr ''A'')]"
  by (simp add: message_of_def wire_world_parse wire_parse_A)
lemma message_of_B: "message_of wire_world line_B = Some [(''content'', JStr ''B'')]"
  by (simp add: message_of_def wire_world_parse wire_parse_B)
lemma message_of_ignored: "message_of wire_world line_ignored = Some [(''content'', JStr ''ignored'')]"
  by (simp add: message_of_def wire_world_parse wire_parse_ignored)
lemma message_of_call: "message_of wire_world line_call = Some [(''tool_calls'', JArr [call_f])]"
  by (simp add: message_of_def wire_world_parse wire_parse_call)

text \<open>
  The two decoding examples: contents \<open>A\<close> and \<open>B\<close> give \<open>AB\<close>; a content line
  followed by an invocation of \<open>f\<close> gives the invocation, and the text is dropped.
\<close>

theorem processResponse_decoding_witness:
  "list_all (wire_record wire_world) (split_lines (trim reply_AB)) \<and>
   processResponse wire_world reply_AB = Text ''AB'' \<and>
   list_all (wire_record wire_world) (split_lines (trim reply_call)) \<and>
   processResponse wire_world reply_call = FunctionCall call_f"
proof -
  have h1: "list_all (wire_record wire_world) (split_lines (trim reply_AB))"
    unfolding lines_AB by (simp add: wire_record_def message_of_A message_of_B)
  have h2: "list_all (wire_record wire_world) (split_lines (trim reply_call))"
    unfolding lines_call by (simp add: wire_record_def message_of_ignored message_of_call call_f_def)
  have r1: "processResponse wire_world reply_AB = Text ''AB''"
    using processResponse_decoding[OF h1] unfolding lines_AB
    by (simp add: line_invocation_def line_content_def message_of_A message_of_B)
  have r2: "processResponse wire_world reply_call = FunctionCall call_f"
    using processResponse_decoding[OF h2] unfolding lines_call
    by (simp add: line_invocation_def line_content_def message_of_ignored message_of_call)
  from h1 r1 h2 r2 show ?thesis by blast
qed

section \<open>Properties of the chat transport\<close>

lemma chat_returns: "\<exists>r. chat w n model msgs tool_defs = Inr r"
  by (simp add: chat_def try_catch_def split: FetchOutcome.splits sum.splits)

lemma chat_fetch_throws:
  "fetch_chat w n \<lparr>rq_model = model, rq_messages = msgs, rq_tools = tool_defs\<rparr> = FetchThrows e \<Longrightarrow>
   chat w n model msgs tool_defs = Inr (Text [])"
  by (simp add: chat_def try_catch_def)

lemma chat_bad_status:
  "fetch_chat w n \<lparr>rq_model = model, rq_messages = msgs, rq_tools = tool_defs\<rparr> = Response status body \<Longrightarrow>
   status \<noteq> 200 \<Longrightarrow> chat w n model msgs tool_defs = Inr (Text [])"
  by (simp add: chat_def try_catch_def split: sum.splits)

lemma unparsable_line_skipped:
  "json_parse w line = Inl e \<Longrightarrow> process_lines w acc (line # lines) = process_lines w acc lines"
  by (simp add: decode_line_def)

lemma agent_chat_logs:
  "requests (snd (agent_chat w model msgs a)) =
   requests a @ [\<lparr>rq_model = model, rq_messages = msgs,
                  rq_tools = Some (getAllTools builtInTools (toolsMCP a))\<rparr>]"
  by (simp add: agent_chat_def Let_def)

text \<open>
  C5. \<^verbatim>\<open>OllamaAPIClient.chat\<close> always returns a result and never an exception. When
  \<^verbatim>\<open>fetch\<close> throws, or the status is not 200, the result is the empty text; the agent has
  then posted exactly one request (the backend is not asked again). A line that does not
  parse is skipped and decoding goes on with the lines after it.
\<close>

theorem chat_never_raises:
  "(\<exists>r. chat w n model msgs tool_defs = Inr r) \<and>
   ((\<exists>e. fetch_chat w n \<lparr>rq_model = model, rq_messages = msgs, rq_tools = tool_defs\<rparr> = FetchThrows e) \<or>
    (\<exists>status body. fetch_chat w n \<lparr>rq_model = model, rq_messages = msgs, rq_tools = tool_defs\<rparr>
         = Response status body \<and> status \<noteq> 200)
    \<longrightarrow> chat w n model msgs tool_defs = Inr (Text [])) \<and>
   length (requests (snd (agent_chat w model msgs a))) = Suc (length (requests a)) \<and>
   ((\<exists>e. json_parse w line = Inl e) \<longrightarrow>
      process_lines w acc (line # lines) = process_lines w acc lines)"
  using chat_returns[of w n model msgs tool_defs] chat_fetch_throws[of w n model msgs tool_defs]
    chat_bad_status[of w n model msgs tool_defs] unparsable_line_skipped[of w line _ acc lines]
    agent_chat_logs[of w model msgs a]
  by auto

lemma failing_world_fetch: "fetch_chat failing_world n rq = Response 500 (Inr ''Internal Server Error'')"
  by (simp add: failing_world_def)

lemma offline_world_fetch: "fetch_chat offline_world n rq = FetchThrows (Exn ''FetchError'' ''connect ECONNREFUSED'')"
  by (simp add: offline_world_def)

lemma wire_parse_html: "json_parse wire_world ''<html>'' = Inl SyntaxError"
  by (simp add: wire_world_def wire_parse_def line_A_def line_B_def line_ignored_def line_call_def)

lemma decode_line_A: "decode_line wire_world [] line_A = Inr (Continue ''A'')"
  by (simp add: decode_line_def wire_world_parse wire_parse_A js_and_get_def)

text \<open>
  A refused connection, a status 500, and an HTML line before a content line.
\<close>

theorem chat_never_raises_witness:
  "chat offline_world 0 DEFAULT_MODEL [] None = Inr (Text []) \<and>
   chat failing_world 0 DEFAULT_MODEL [] None = Inr (Text []) \<and>
   length (requests (snd (agent_chat failing_world DEFAULT_MODEL [] new_OllamaAgent))) = 1 \<and>
   process_lines wire_world [] [''<html>'', line_A] = Text ''A''"
proof -
  have a: "chat offline_world 0 DEFAULT_MODEL [] None = Inr (Text [])"
    using chat_never_raises[of offline_world 0 DEFAULT_MODEL "[]" None new_OllamaAgent "[]" "[]" "[]"]
    by (simp add: offline_world_fetch)
  have b: "chat failing_world 0 DEFAULT_MODEL [] None = Inr (Text []) \<and>
           length (requests (snd (agent_chat failing_world DEFAULT_MODEL [] new_OllamaAgent))) = 1"
    using chat_never_raises[of failing_world 0 DEFAULT_MODEL "[]" None new_OllamaAgent "[]" "[]" "[]"]
    by (simp add: failing_world_fetch new_OllamaAgent_def)
  have c: "process_lines wire_world [] [''<html>'', line_A] = process_lines wire_world [] [line_A]"
    using chat_never_raises[of wire_world 0 DEFAULT_MODEL "[]" None new_OllamaAgent "''<html>''" "[]" "[line_A]"]
      wire_parse_html by blast
  have d: "process_lines wire_world [] [line_A] = Text ''A''"
    by (simp add: decode_line_A)
  from a b c d show ?thesis by simp
qed

section \<open>Properties of the remote tool gateway\<close>

lemma disconnect_returns: "\<exists>c'. disconnect w c = (Inr (), c')"
  by (simp add: disconnect_def disconnect_body_def split: option.splits)

lemma disconnect_clean:
  "client_close w = None \<or> \<not> client c \<Longrightarrow> Disconnected (snd (disconnect w c))"
  by (auto simp: disconnect_def disconnect_body_def Disconnected_def split: option.splits)

lemma connect_returns: "\<exists>b c'. connect w c = (Inr b, c')"
proof (cases "connect_body w c")
  case (Pair r c1)
  show ?thesis
  proof (cases r)
    case (Inl e)
    from disconnect_returns[of w c1] obtain c2 where "disconnect w c1 = (Inr (), c2)" ..
    with Pair Inl have "connect w c = (Inr False, c2)" by (simp add: connect_def)
    then show ?thesis by blast
  next
    case (Inr b)
    with Pair have "connect w c = (Inr b, c1)" by (simp add: connect_def)
    then show ?thesis by blast
  qed
qed

lemma connect_body_fails:
  "spawn_or_handshake_fails w \<Longrightarrow> \<exists>e. fst (connect_body w c) = Inl e"
  by (auto simp: spawn_or_handshake_fails_def connect_body_def split: option.splits)

lemma connect_body_client:
  "new_transport w \<noteq> None \<or> new_client w \<noteq> None \<Longrightarrow>
   client (snd (connect_body w c)) = client c"
  by (auto simp: connect_body_def split: option.splits)

lemma connect_fails_false:
  "spawn_or_handshake_fails w \<Longrightarrow> fst (connect w c) = Inr False"
proof -
  assume "spawn_or_handshake_fails w"
  from connect_body_fails[OF this, of c] obtain e where e: "fst (connect_body w c) = Inl e" ..
  obtain c1 where c1: "connect_body w c = (Inl e, c1)" using e by (cases "connect_body w c") simp
  from disconnect_returns[of w c1] obtain c2 where "disconnect w c1 = (Inr (), c2)" ..
  with c1 show ?thesis by (simp add: connect_def)
qed

lemma connect_fails_state:
  "spawn_or_handshake_fails w \<Longrightarrow> snd (connect w c) = snd (disconnect w (snd (connect_body w c)))"
proof -
  assume "spawn_or_handshake_fails w"
  from connect_body_fails[OF this, of c] obtain e where e: "fst (connect_body w c) = Inl e" ..
  obtain c1 where c1: "connect_body w c = (Inl e, c1)" using e by (cases "connect_body w c") simp
  from disconnect_returns[of w c1] obtain c2 where "disconnect w c1 = (Inr (), c2)" ..
  with c1 show ?thesis by (simp add: connect_def)
qed

lemma connect_fails_clean:
  assumes "spawn_or_handshake_fails w"
    and "client_close w = None \<or> (\<not> client c \<and> (new_transport w \<noteq> None \<or> new_client w \<noteq> None))"
  shows "Disconnected (snd (connect w c))"
proof -
  from assms(2) have "client_close w = None \<or> \<not> client (snd (connect_body w c))"
    using connect_body_client[of w c] by auto
  from disconnect_clean[OF this] connect_fails_state[OF assms(1), of c] show ?thesis by simp
qed

lemma setup_degrades:
  assumes "spawn_or_handshake_fails w" and "checkConnection w = Inr ok"
  shows "agent_setup w a = Running (a\<lparr>mcpClient := snd (connect w (mcpClient a))\<rparr>)"
proof -
  obtain r c' where rc: "connect w (mcpClient a) = (r, c')" by (cases "connect w (mcpClient a)")
  with connect_fails_false[OF assms(1), of "mcpClient a"] have "r = Inr False" by simp
  with rc assms(2) show ?thesis by (simp add: agent_setup_def)
qed

text \<open>
  What the code keeps of the rollback. \<^verbatim>\<open>connect\<close> never throws. When the spawn or
  the handshake fails it returns \<^verbatim>\<open>false\<close>; the gateway is left disconnected when
  closing the client does not fail, or when the failure came before a client was stored.
  \<^verbatim>\<open>setup\<close>, with the chat backend reachable, then returns with no remote catalog, so
  that only the built-in tools are advertised.
\<close>

theorem connect_failure_degrades:
  "(\<exists>b c'. connect w c = (Inr b, c')) \<and>
   (spawn_or_handshake_fails w \<longrightarrow>
      fst (connect w c) = Inr False \<and>
      (client_close w = None \<or> (\<not> client c \<and> (new_transport w \<noteq> None \<or> new_client w \<noteq> None))
         \<longrightarrow> Disconnected (snd (connect w c))) \<and>
      (\<forall>ok. checkConnection w = Inr ok \<longrightarrow>
         (\<exists>a'. agent_setup w new_OllamaAgent = Running a' \<and> toolsMCP a' = None \<and>
               getAllTools builtInTools (toolsMCP a') = builtInTools)))"
proof -
  have 1: "\<exists>b c'. connect w c = (Inr b, c')" by (rule connect_returns)
  have 2: "spawn_or_handshake_fails w \<Longrightarrow> fst (connect w c) = Inr False"
    by (rule connect_fails_false)
  have 3: "spawn_or_handshake_fails w \<Longrightarrow>
           client_close w = None \<or> (\<not> client c \<and> (new_transport w \<noteq> None \<or> new_client w \<noteq> None)) \<Longrightarrow>
           Disconnected (snd (connect w c))"
    by (rule connect_fails_clean)
  have 4: "spawn_or_handshake_fails w \<Longrightarrow> checkConnection w = Inr ok \<Longrightarrow>
           (\<exists>a'. agent_setup w new_OllamaAgent = Running a' \<and> toolsMCP a' = None \<and>
               getAllTools builtInTools (toolsMCP a') = builtInTools)" for ok
    using setup_degrades[of w ok new_OllamaAgent]
    by (simp add: new_OllamaAgent_def getAllTools_def)
  from 1 2 3 4 show ?thesis by blast
qed

lemma stuck_connect:
  "connect stuck_world new_MCPClient = (Inr False, \<lparr>client = True, transport = True, calls = []\<rparr>)"
  by (simp add: connect_def connect_body_def disconnect_def disconnect_body_def stuck_world_def
        offline_world_def new_MCPClient_def)

text \<open>
  C6 fails on the code. When the handshake fails and closing the client fails too,
  \<^verbatim>\<open>disconnect\<close> leaves its \<^verbatim>\<open>try\<close> before it clears the fields: \<^verbatim>\<open>connect\<close>
  returns \<^verbatim>\<open>false\<close>, and the gateway keeps its client and its transport, so it is not
  disconnected (\<^verbatim>\<open>getClient\<close> is documented to return \<^verbatim>\<open>null\<close> when there is no
  connection, and \<^verbatim>\<open>listTools\<close> and \<^verbatim>\<open>executeTool\<close> test the field for that).
\<close>

theorem connect_rollback_incomplete:
  "client_connect stuck_world = Some (Exn ''Error'' ''handshake failed'') \<and>
   client_close stuck_world = Some (Exn ''Error'' ''close failed'') \<and>
   connect stuck_world new_MCPClient = (Inr False, \<lparr>client = True, transport = True, calls = []\<rparr>) \<and>
   \<not> Disconnected (snd (connect stuck_world new_MCPClient))"
proof -
  have "client_connect stuck_world = Some (Exn ''Error'' ''handshake failed'')"
    "client_close stuck_world = Some (Exn ''Error'' ''close failed'')"
    by (simp_all add: stuck_world_def)
  moreover have "\<not> Disconnected (snd (connect stuck_world new_MCPClient))"
    by (simp add: stuck_connect Disconnected_def)
  ultimately show ?thesis using stuck_connect by simp
qed

lemma refused_check: "checkConnection refused_world = Inr True"
  by (simp add: checkConnection_def try_catch_def refused_world_def offline_world_def)

text \<open>A provider whose handshake is refused, with a client that closes.\<close>

theorem connect_failure_degrades_witness:
  "spawn_or_handshake_fails refused_world \<and>
   fst (connect refused_world new_MCPClient) = Inr False \<and>
   Disconnected (snd (connect refused_world new_MCPClient)) \<and>
   (\<exists>a'. agent_setup refused_world new_OllamaAgent = Running a' \<and> toolsMCP a' = None \<and>
         getAllTools builtInTools (toolsMCP a') = builtInTools)"
proof -
  have f: "spawn_or_handshake_fails refused_world"
    by (simp add: spawn_or_handshake_fails_def refused_world_def)
  have c: "client_close refused_world = None"
    by (simp add: refused_world_def offline_world_def)
  from connect_failure_degrades[of refused_world new_MCPClient] f c refused_check
  show ?thesis by blast
qed

section \<open>Properties of dispatch and turn processing\<close>

lemma starts_with_mcp: "starts_with ''mcp_'' (''mcp_'' @ n)"
  by (simp add: starts_with_def)

lemma drop_mcp: "drop 4 (''mcp_'' @ n) = n"
  by simp

lemma executeFunction_local:
  "\<not> starts_with ''mcp_'' fname \<Longrightarrow>
   executeFunction w (Some (JStr fname)) args a = (Some (not_implemented fname), a)"
  by (simp add: executeFunction_def)

lemma executeFunction_prefixed:
  "starts_with ''mcp_'' fname \<Longrightarrow>
   executeFunction w (Some (JStr fname)) args a =
     (case executeMcpTool w (drop 4 fname) args a of
        (Inl e, a') \<Rightarrow>
          (Some (''Error ejecutando la herramienta MCP '' @ drop 4 fname @ '': '' @ error_to_string e), a')
      | (Inr result, a') \<Rightarrow> (js_stringify w result, a'))"
  by (simp add: executeFunction_def Let_def)



lemma executeMcpTool_remote:
  "toolsMCP a \<noteq> None \<Longrightarrow> client (mcpClient a) \<Longrightarrow>
   executeMcpTool w n args a =
     (client_callTool w n args,
      a\<lparr>mcpClient := (mcpClient a)\<lparr>calls := calls (mcpClient a) @ [(n, args)]\<rparr>\<rparr>)"
  by (auto simp: executeMcpTool_def executeTool_def try_catch_def split: sum.splits)



lemma executeFunction_remote:
  "toolsMCP a \<noteq> None \<Longrightarrow> client (mcpClient a) \<Longrightarrow>
   executeFunction w (Some (JStr (''mcp_'' @ n))) args a =
     ((case client_callTool w n args of
         Inl e \<Rightarrow> Some (''Error ejecutando la herramienta MCP '' @ n @ '': '' @ error_to_string e)
       | Inr result \<Rightarrow> js_stringify w result),
      a\<lparr>mcpClient := (mcpClient a)\<lparr>calls := calls (mcpClient a) @ [(n, args)]\<rparr>\<rparr>)"
  unfolding executeFunction_prefixed[OF starts_with_mcp] drop_mcp
  by (simp add: executeMcpTool_remote split: sum.splits)

lemma executeMcpTool_frame:
  "executeMcpTool w n args a = (r, a') \<Longrightarrow>
   toolsMCP a' = toolsMCP a \<and> requests a' = requests a \<and>
   client (mcpClient a') = client (mcpClient a) \<and>
   (\<exists>cs. calls (mcpClient a') = calls (mcpClient a) @ cs)"
  by (auto simp: executeMcpTool_def executeTool_def split: if_splits prod.splits)

lemma executeFunction_frame:
  "executeFunction w functionName args a = (r, a') \<Longrightarrow>
   toolsMCP a' = toolsMCP a \<and> requests a' = requests a \<and>
   client (mcpClient a') = client (mcpClient a) \<and>
   (\<exists>cs. calls (mcpClient a') = calls (mcpClient a) @ cs)"
proof (cases "\<exists>fname. functionName = Some (JStr fname) \<and> starts_with ''mcp_'' fname")
  case True
  then obtain fname where f: "functionName = Some (JStr fname)" "starts_with ''mcp_'' fname" by blast
  assume ef: "executeFunction w functionName args a = (r, a')"
  obtain r0 a0 where m: "executeMcpTool w (drop 4 fname) args a = (r0, a0)"
    by (cases "executeMcpTool w (drop 4 fname) args a")
  from ef f m have "a' = a0"
    by (cases r0) (simp_all add: executeFunction_prefixed)
  with executeMcpTool_frame[OF m] show ?thesis by simp
next
  case False
  assume ef: "executeFunction w functionName args a = (r, a')"
  from False ef have "a' = a"
    by (auto simp: executeFunction_def split: option.splits json.splits if_splits)
  then show ?thesis by simp
qed

lemma agent_chat_returns: "\<exists>r. fst (agent_chat w model msgs a) = Inr r"
  using chat_returns by (simp add: agent_chat_def Let_def)

lemma agent_chat_state:
  "snd (agent_chat w model msgs a) =
   a\<lparr>requests := requests a @ [\<lparr>rq_model = model, rq_messages = msgs,
                                  rq_tools = Some (getAllTools builtInTools (toolsMCP a))\<rparr>]\<rparr>"
  by (simp add: agent_chat_def Let_def)

declare processFunctionCall.simps(2) [simp del]

text \<open>One call of \<^verbatim>\<open>processFunctionCall\<close> on an invocation that has a function member.\<close>

lemma processFunctionCall_step:
  assumes "js_get (Some fc) ''function'' = Inr fn"
    and "js_get fn ''name'' = Inr functionName"
    and "js_get fn ''arguments'' = Inr argsStr"
    and "executeFunction w functionName (parse_arguments w argsStr) (agent s) = (r, a')"
    and "msgs = messages s @
           [assistant_call (call_id (length (messages s))) functionName (encode_arguments w argsStr),
            tool_result (call_id (length (messages s))) functionName
              (case r of None \<Rightarrow> NoResult | Some res \<Rightarrow> res)]"
  shows "processFunctionCall w (Suc k) model fc s =
     (case agent_chat w model msgs a' of
        (Inl e, a'') \<Rightarrow> Returned \<lparr>messages = msgs, agent = a''\<rparr>
      | (Inr (FunctionCall fc'), a'') \<Rightarrow>
          processFunctionCall w k model fc' \<lparr>messages = msgs, agent = a''\<rparr>
      | (Inr (Text finalResponse), a'') \<Rightarrow>
          Returned \<lparr>messages = msgs @ [plain ASSISTANT finalResponse], agent = a''\<rparr>)"
  using assms by (simp add: processFunctionCall.simps(2) Let_def split: prod.splits sum.splits ChatResult.splits)

lemma js_get_arguments:
  "js_get fn ''name'' = Inr functionName \<Longrightarrow> \<exists>argsStr. js_get fn ''arguments'' = Inr argsStr"
  by (cases "(fn, ''name'')" rule: js_get.cases) auto

text \<open>
  The four ways one call can go: the invocation has no function member; or the two
  messages are pushed and the follow-up chat raises, asks for another invocation, or
  answers with text.
\<close>

lemma processFunctionCall_outcomes:
  obtains
    (early) "processFunctionCall w (Suc k) model fc s = Returned s"
  | (turn) functionName arguments functionResult a' msgs a'' where
      "msgs = messages s @
         [assistant_call (call_id (length (messages s))) functionName arguments,
          tool_result (call_id (length (messages s))) functionName functionResult]"
      "toolsMCP a' = toolsMCP (agent s)" "requests a' = requests (agent s)"
      "client (mcpClient a') = client (mcpClient (agent s))"
      "\<exists>cs. calls (mcpClient a') = calls (mcpClient (agent s)) @ cs"
      "a'' = a'\<lparr>requests := requests a' @ [\<lparr>rq_model = model, rq_messages = msgs,
                     rq_tools = Some (getAllTools builtInTools (toolsMCP a'))\<rparr>]\<rparr>"
      "(\<exists>fc'. processFunctionCall w (Suc k) model fc s =
                processFunctionCall w k model fc' \<lparr>messages = msgs, agent = a''\<rparr>) \<or>
       (\<exists>t. processFunctionCall w (Suc k) model fc s =
                Returned \<lparr>messages = msgs @ [plain ASSISTANT t], agent = a''\<rparr>)"
proof (cases "js_get (Some fc) ''function''")
  case (Inl e)
  then have "processFunctionCall w (Suc k) model fc s = Returned s"
    by (simp add: processFunctionCall.simps(2))
  then show ?thesis by (rule early)
next
  case fn: (Inr fn)
  show ?thesis
  proof (cases "js_get fn ''name''")
    case (Inl e)
    with fn have "processFunctionCall w (Suc k) model fc s = Returned s"
      by (simp add: processFunctionCall.simps(2))
    then show ?thesis by (rule early)
  next
    case nm: (Inr functionName)
    from js_get_arguments[OF nm] obtain argsStr where ar: "js_get fn ''arguments'' = Inr argsStr" ..
    obtain r a' where ef: "executeFunction w functionName (parse_arguments w argsStr) (agent s) = (r, a')"
      by (cases "executeFunction w functionName (parse_arguments w argsStr) (agent s)")
    note fr = executeFunction_frame[OF ef]
    define msgs where "msgs = messages s @
           [assistant_call (call_id (length (messages s))) functionName (encode_arguments w argsStr),
            tool_result (call_id (length (messages s))) functionName
              (case r of None \<Rightarrow> NoResult | Some res \<Rightarrow> res)]"
    note st = processFunctionCall_step[OF fn nm ar ef msgs_def, of k model]
    obtain res a'' where ac: "agent_chat w model msgs a' = (res, a'')"
      by (cases "agent_chat w model msgs a'")
    from agent_chat_state[of w model msgs a'] ac
    have a'': "a'' = a'\<lparr>requests := requests a' @ [\<lparr>rq_model = model, rq_messages = msgs,
                     rq_tools = Some (getAllTools builtInTools (toolsMCP a'))\<rparr>]\<rparr>" by simp
    from agent_chat_returns[of w model msgs a'] ac obtain cr where cr: "res = Inr cr" by auto
    have "(\<exists>fc'. processFunctionCall w (Suc k) model fc s =
                processFunctionCall w k model fc' \<lparr>messages = msgs, agent = a''\<rparr>) \<or>
       (\<exists>t. processFunctionCall w (Suc k) model fc s =
                Returned \<lparr>messages = msgs @ [plain ASSISTANT t], agent = a''\<rparr>)"
      using st ac cr by (cases cr) auto
    with turn[OF msgs_def _ _ _ _ a''] fr show ?thesis by blast
  qed
qed

text \<open>A property of histories that every push of the algorithm keeps holds of the result.\<close>

lemma processFunctionCall_history:
  assumes step: "\<And>h nm args res. P h \<Longrightarrow>
        P (h @ [assistant_call (call_id (length h)) nm args, tool_result (call_id (length h)) nm res])"
    and final: "\<And>h t. P h \<Longrightarrow> P (h @ [plain ASSISTANT t])"
    and init: "P (messages s)"
  shows "P (messages (run_state (processFunctionCall w k model fc s)))"
  using init
proof (induction k arbitrary: fc s)
  case 0
  then show ?case by simp
next
  case (Suc k)
  show ?case
  proof (cases rule: processFunctionCall_outcomes[of w k model fc s])
    case early
    with Suc.prems show ?thesis by simp
  next
    case (turn functionName arguments functionResult a' msgs a'')
    from step[OF Suc.prems] turn(1) have P: "P msgs" by simp
    from turn(7) show ?thesis
    proof
      assume "\<exists>fc'. processFunctionCall w (Suc k) model fc s =
                processFunctionCall w k model fc' \<lparr>messages = msgs, agent = a''\<rparr>"
      then obtain fc' where "processFunctionCall w (Suc k) model fc s =
                processFunctionCall w k model fc' \<lparr>messages = msgs, agent = a''\<rparr>" ..
      with Suc.IH[of "\<lparr>messages = msgs, agent = a''\<rparr>" fc'] P show ?thesis by simp
    next
      assume "\<exists>t. processFunctionCall w (Suc k) model fc s =
                Returned \<lparr>messages = msgs @ [plain ASSISTANT t], agent = a''\<rparr>"
      with final[OF P] show ?thesis by auto
    qed
  qed
qed

section \<open>Properties of sessions\<close>

lemma read_show_nat: "read_nat (show_nat n) = n"
proof (induction n rule: show_nat.induct)
  case (1 n)
  show ?case
  proof (cases "n < 10")
    case True
    then show ?thesis
      by (subst show_nat.simps) (simp add: read_nat_def digit_char_def)
  next
    case False
    with 1 have IH: "read_nat (show_nat (n div 10)) = n div 10" by simp
    have "read_nat (show_nat n) = 10 * read_nat (show_nat (n div 10)) + n mod 10"
      using False by (subst show_nat.simps) (simp add: read_nat_def digit_char_def)
    with IH show ?thesis by simp
  qed
qed

lemma show_nat_inj: "show_nat n = show_nat m \<Longrightarrow> n = m"
  by (metis read_show_nat)

lemma call_id_inj: "call_id n = call_id m \<Longrightarrow> n = m"
  by (simp add: call_id_def show_nat_inj)

lemma ids_by_position_Nil: "ids_by_position []"
  by (simp add: ids_by_position_def)

lemma ids_by_position_plain: "ids_by_position h \<Longrightarrow> ids_by_position (h @ [plain r t])"
  by (auto simp: ids_by_position_def nth_append plain_def less_Suc_eq)

lemma ids_by_position_turn:
  "ids_by_position h \<Longrightarrow>
   ids_by_position (h @ [assistant_call (call_id (length h)) nm args,
                         tool_result (call_id (length h)) nm res])"
  by (auto simp: ids_by_position_def nth_append assistant_call_def tool_result_def less_Suc_eq)

lemma ids_by_position_snoc:
  "ids_by_position (h @ [m]) \<Longrightarrow>
   ids_by_position h \<and> (\<forall>tcs. tool_calls m = Some tcs \<longrightarrow> map tc_id tcs = [call_id (length h)])"
  unfolding ids_by_position_def
proof (intro conjI allI impI)
  fix i tcs
  assume a: "\<forall>i<length (h @ [m]). \<forall>tcs. tool_calls ((h @ [m]) ! i) = Some tcs \<longrightarrow> map tc_id tcs = [call_id i]"
    and i: "i < length h" and t: "tool_calls (h ! i) = Some tcs"
  from a[rule_format, of i tcs] i t show "map tc_id tcs = [call_id i]"
    by (simp add: nth_append)
next
  fix tcs
  assume a: "\<forall>i<length (h @ [m]). \<forall>tcs. tool_calls ((h @ [m]) ! i) = Some tcs \<longrightarrow> map tc_id tcs = [call_id i]"
    and t: "tool_calls m = Some tcs"
  from a[rule_format, of "length h" tcs] t show "map tc_id tcs = [call_id (length h)]"
    by simp
qed

lemma call_ids_snoc:
  "call_ids (h @ [m]) = call_ids h @ (case tool_calls m of None \<Rightarrow> [] | Some tcs \<Rightarrow> map tc_id tcs)"
  by (simp add: call_ids_def)

lemma call_positions_snoc:
  "call_positions (h @ [m]) = call_positions h @ (if tool_calls m \<noteq> None then [length h] else [])"
proof -
  have "filter (\<lambda>i. tool_calls ((h @ [m]) ! i) \<noteq> None) [0..<length h] =
        filter (\<lambda>i. tool_calls (h ! i) \<noteq> None) [0..<length h]"
    by (rule filter_cong) (simp_all add: nth_append)
  then show ?thesis by (simp add: call_positions_def)
qed

lemma call_ids_positions: "ids_by_position h \<Longrightarrow> call_ids h = map call_id (call_positions h)"
proof (induction h rule: rev_induct)
  case Nil
  then show ?case by (simp add: call_ids_def call_positions_def)
next
  case (snoc m h)
  from ids_by_position_snoc[OF snoc.prems]
  have h: "ids_by_position h"
    and m: "\<forall>tcs. tool_calls m = Some tcs \<longrightarrow> map tc_id tcs = [call_id (length h)]" by simp_all
  from snoc.IH[OF h] m show ?case
    by (cases "tool_calls m") (simp_all add: call_ids_snoc call_positions_snoc)
qed

lemma call_positions_sorted: "sorted_wrt (<) (call_positions h)"
  unfolding call_positions_def by (rule sorted_wrt_filter) simp

lemma call_positions_distinct: "distinct (call_positions h)"
  by (simp add: call_positions_def)

lemma call_ids_distinct: "ids_by_position h \<Longrightarrow> distinct (call_ids h)"
  using call_ids_positions[of h] call_positions_distinct[of h]
  by (auto simp: distinct_map inj_on_def dest: call_id_inj)

lemma chat_loop_history:
  assumes step: "\<And>h nm args res. P h \<Longrightarrow>
        P (h @ [assistant_call (call_id (length h)) nm args, tool_result (call_id (length h)) nm res])"
    and plain: "\<And>h r t. P h \<Longrightarrow> r \<noteq> TOOL \<Longrightarrow> P (h @ [plain r t])"
    and init: "P (messages s)"
  shows "P (messages (run_state (chat_loop w fuel model inputs s)))"
  using init
proof (induction inputs arbitrary: s)
  case Nil
  then show ?case by simp
next
  case (Cons userMessage inputs)
  show ?case
  proof (cases "to_lower userMessage \<in> set [''/salir'', ''/exit'', ''/quit'']")
    case True
    with Cons.prems show ?thesis by simp
  next
    case False
    define msgs where "msgs = messages s @ [plain USER userMessage]"
    have P: "P msgs" unfolding msgs_def by (rule plain[OF Cons.prems]) simp
    obtain res a' where ac: "agent_chat w model msgs (agent s) = (res, a')"
      by (cases "agent_chat w model msgs (agent s)")
    from agent_chat_returns[of w model msgs "agent s"] ac obtain cr where cr: "res = Inr cr" by auto
    show ?thesis
    proof (cases cr)
      case (Text response)
      show ?thesis
      proof (cases "response = []")
        case True
        with False ac cr Text msgs_def
        have "chat_loop w fuel model (userMessage # inputs) s =
              chat_loop w fuel model inputs \<lparr>messages = msgs, agent = a'\<rparr>"
          by (simp add: Let_def)
        with Cons.IH[of "\<lparr>messages = msgs, agent = a'\<rparr>"] P show ?thesis by simp
      next
        case nonempty: False
        with False ac cr Text msgs_def
        have "chat_loop w fuel model (userMessage # inputs) s =
              chat_loop w fuel model inputs \<lparr>messages = msgs @ [plain ASSISTANT response], agent = a'\<rparr>"
          by (simp add: Let_def)
        with Cons.IH[of "\<lparr>messages = msgs @ [plain ASSISTANT response], agent = a'\<rparr>"]
          plain[OF P, of ASSISTANT response] show ?thesis by simp
      qed
    next
      case (FunctionCall fc)
      define R where "R = processFunctionCall w fuel model fc \<lparr>messages = msgs, agent = a'\<rparr>"
      have PR: "P (messages (run_state R))"
        unfolding R_def
        by (rule processFunctionCall_history[where P = P, OF step plain]) (simp_all add: P)
      from False ac cr FunctionCall msgs_def R_def
      have eq: "chat_loop w fuel model (userMessage # inputs) s =
            (case R of OutOfFuel s' \<Rightarrow> OutOfFuel s' | Returned s' \<Rightarrow> chat_loop w fuel model inputs s')"
        by (simp add: Let_def)
      show ?thesis
      proof (cases R)
        case (Returned s')
        with eq PR Cons.IH[of s'] show ?thesis by simp
      next
        case (OutOfFuel s')
        with eq PR show ?thesis by simp
      qed
    qed
  qed
qed

lemma interactiveChat_history:
  assumes step: "\<And>h nm args res. P h \<Longrightarrow>
        P (h @ [assistant_call (call_id (length h)) nm args, tool_result (call_id (length h)) nm res])"
    and plain: "\<And>h r t. P h \<Longrightarrow> r \<noteq> TOOL \<Longrightarrow> P (h @ [plain r t])"
    and init: "P []"
  shows "P (messages (run_state (interactiveChat w fuel models inputs a)))"
proof -
  from plain[OF init, of SYSTEM system_prompt] have P: "P [plain SYSTEM system_prompt]" by simp
  have "P (messages (run_state (chat_loop w fuel m inputs \<lparr>messages = [plain SYSTEM system_prompt], agent = a\<rparr>)))" for m
    by (rule chat_loop_history[where P = P, OF step plain]) (simp_all add: P)
  with init show ?thesis
    by (simp add: interactiveChat_def split: list.splits)
qed

text \<open>
  C8. In the history of a session, however far it has run, the invocation ids are, in
  order, \<^verbatim>\<open>call_\<close> followed by the position of the message that carries them, which is
  the length of the history when the id was made. These positions increase strictly, and
  the ids are pairwise distinct.
\<close>

theorem call_ids_distinct_increasing:
  "call_ids (messages (run_state (interactiveChat w fuel models inputs a))) =
     map call_id (call_positions (messages (run_state (interactiveChat w fuel models inputs a)))) \<and>
   sorted_wrt (<) (call_positions (messages (run_state (interactiveChat w fuel models inputs a)))) \<and>
   distinct (call_ids (messages (run_state (interactiveChat w fuel models inputs a))))"
proof -
  have "ids_by_position (messages (run_state (interactiveChat w fuel models inputs a)))"
    by (rule interactiveChat_history[where P = ids_by_position])
       (simp_all add: ids_by_position_turn ids_by_position_plain ids_by_position_Nil)
  with call_ids_positions call_ids_distinct call_positions_sorted show ?thesis by blast
qed

section \<open>Properties of the history built by turn processing\<close>



lemma paired_history_start:
  "role sysm = SYSTEM \<Longrightarrow> role userm = USER \<Longrightarrow> tool_calls sysm = None \<Longrightarrow>
   tool_calls userm = None \<Longrightarrow> paired_history [sysm, userm]"
  by (auto simp: paired_history_def answers_previous_def answered_next_def less_Suc_eq)

lemma paired_history_old:
  assumes "paired_history h" and "i < length h"
  shows "answers_previous (h @ xs) i \<and> answered_next (h @ xs) i"
proof -
  from assms have a: "answers_previous h i" and b: "answered_next h i"
    by (simp_all add: paired_history_def)
  from a assms(2) have "answers_previous (h @ xs) i"
    by (auto simp: answers_previous_def nth_append)
  moreover from b assms(2) have "answered_next (h @ xs) i"
    by (auto simp: answered_next_def nth_append)
  ultimately show ?thesis ..
qed

lemma paired_history_plain:
  assumes "paired_history h" and "r \<noteq> TOOL"
  shows "paired_history (h @ [plain r t])"
  unfolding paired_history_def
proof (intro allI impI)
  fix i assume "i < length (h @ [plain r t])"
  then consider "i < length h" | "i = length h" by fastforce
  then show "answers_previous (h @ [plain r t]) i \<and> answered_next (h @ [plain r t]) i"
  proof cases
    case 1
    with assms(1) show ?thesis by (rule paired_history_old)
  next
    case 2
    with assms(2) show ?thesis
      by (simp add: answers_previous_def answered_next_def plain_def)
  qed
qed

lemma paired_history_turn:
  assumes "paired_history h"
  shows "paired_history (h @ [assistant_call cid nm args, tool_result cid nm res])"
  unfolding paired_history_def
proof (intro allI impI)
  fix i assume "i < length (h @ [assistant_call cid nm args, tool_result cid nm res])"
  then consider "i < length h" | "i = length h" | "i = Suc (length h)" by fastforce
  then show "answers_previous (h @ [assistant_call cid nm args, tool_result cid nm res]) i \<and>
             answered_next (h @ [assistant_call cid nm args, tool_result cid nm res]) i"
  proof cases
    case 1
    with assms show ?thesis by (rule paired_history_old)
  next
    case 2
    then show ?thesis
      by (simp add: answers_previous_def answered_next_def assistant_call_def tool_result_def nth_append)
  next
    case 3
    then show ?thesis
      by (simp add: answers_previous_def answered_next_def assistant_call_def tool_result_def nth_append)
  qed
qed

text \<open>
  C1. In every history that turn processing builds from a system message and a user
  message, however far it has run: a tool message stands right after an assistant message
  that carries one invocation, and its \<^verbatim>\<open>tool_call_id\<close> is that invocation's id; a
  message that carries invocations is an assistant message with one invocation, the next
  message is the tool message with its id, and the message after that is not a tool
  message.
\<close>

theorem tool_results_paired:
  assumes "messages s = [sysm, userm]"
    and "role sysm = SYSTEM" and "role userm = USER"
    and "tool_calls sysm = None" and "tool_calls userm = None"
    and "h = messages (run_state (processFunctionCall w k model fc s))"
    and "i < length h"
  shows "(role (h ! i) = TOOL \<longrightarrow>
            0 < i \<and> role (h ! (i - 1)) = ASSISTANT \<and>
            (\<exists>tc. tool_calls (h ! (i - 1)) = Some [tc] \<and> tool_call_id (h ! i) = Some (tc_id tc))) \<and>
         (\<forall>tcs. tool_calls (h ! i) = Some tcs \<longrightarrow>
            role (h ! i) = ASSISTANT \<and>
            (\<exists>tc. tcs = [tc] \<and> Suc i < length h \<and> role (h ! Suc i) = TOOL \<and>
                  tool_call_id (h ! Suc i) = Some (tc_id tc) \<and>
                  (Suc (Suc i) < length h \<longrightarrow> role (h ! Suc (Suc i)) \<noteq> TOOL)))"
proof -
  have "paired_history (messages (run_state (processFunctionCall w k model fc s)))"
  proof (rule processFunctionCall_history[where P = paired_history])
    show "paired_history (messages s)"
      using assms(1-5) by (simp add: paired_history_start)
  qed (simp_all add: paired_history_turn paired_history_plain)
  with assms(6) have inv: "paired_history h" by simp
  from inv assms(7) have a: "answers_previous h i" and b: "answered_next h i"
    by (simp_all add: paired_history_def)
  have c: "Suc (Suc i) < length h \<Longrightarrow> role (h ! Suc i) = TOOL \<Longrightarrow> role (h ! Suc (Suc i)) \<noteq> TOOL"
  proof
    assume len: "Suc (Suc i) < length h" and t1: "role (h ! Suc i) = TOOL"
      and t2: "role (h ! Suc (Suc i)) = TOOL"
    from inv len have "answers_previous h (Suc (Suc i))" by (simp add: paired_history_def)
    with t2 have "role (h ! Suc i) = ASSISTANT" by (simp add: answers_previous_def)
    with t1 show False by simp
  qed
  from a b c show ?thesis
    unfolding answers_previous_def answered_next_def by blast
qed

section \<open>The end-to-end scenario\<close>

lemma char_of_50: "char_of (50::nat) = CHR ''2''"
  by code_simp

lemma call_id_2: "call_id (Suc (Suc 0)) = ''call_2''"
  by (simp add: call_id_def show_nat.simps digit_char_def char_of_50)

lemma lcm_lines: "split_lines (trim line_final) = [line_final]"
  by (simp add: trim_def is_space_def line_final_def)

lemma lcm_parse:
  "json_parse lcm_world line_final =
     Inr (JObj [(''message'', JObj [(''content'', JStr ''El mcm de 4 y 6 es 12'')])])"
  by (simp add: lcm_world_def)

lemma lcm_process: "processResponse lcm_world line_final = Text ''El mcm de 4 y 6 es 12''"
  by (simp add: processResponse_def lcm_lines decode_line_def lcm_parse js_and_get_def)

lemma lcm_chat: "chat lcm_world n model msgs tool_defs = Inr (Text ''El mcm de 4 y 6 es 12'')"
proof -
  have "fetch_chat lcm_world n rq = Response 200 (Inr line_final)" for rq
    by (simp add: lcm_world_def)
  then show ?thesis by (simp add: chat_def try_catch_def lcm_process)
qed

lemma lcm_agent_chat:
  "fst (agent_chat lcm_world model msgs a) = Inr (Text ''El mcm de 4 y 6 es 12'')"
  by (simp add: agent_chat_def Let_def lcm_chat)

lemma lcm_call_function:
  "js_get (Some lcm_call) ''function'' =
     Inr (Some (JObj [(''name'', JStr ''mcp_lcm''), (''arguments'', lcm_args)]))"
  by (simp add: lcm_call_def)

lemma lcm_call_name:
  "js_get (Some (JObj [(''name'', JStr ''mcp_lcm''), (''arguments'', lcm_args)])) ''name'' =
     Inr (Some (JStr ''mcp_lcm''))"
  by simp

lemma lcm_call_arguments:
  "js_get (Some (JObj [(''name'', JStr ''mcp_lcm''), (''arguments'', lcm_args)])) ''arguments'' =
     Inr (Some lcm_args)"
  by simp

lemma lcm_parse_arguments: "parse_arguments lcm_world (Some lcm_args) = lcm_args"
  by (simp add: parse_arguments_def lcm_args_def)

lemma lcm_encode_arguments: "encode_arguments lcm_world (Some lcm_args) = Some lcm_args"
  by (simp add: encode_arguments_def lcm_args_def)

lemma lcm_callTool: "client_callTool lcm_world ''lcm'' args = Inr (Some lcm_result)"
  by (simp add: lcm_world_def)

lemma lcm_stringify: "json_stringify lcm_world lcm_result = lcm_result_text"
  by (simp add: lcm_world_def)

lemma lcm_dispatch:
  "executeFunction lcm_world (Some (JStr ''mcp_lcm'')) lcm_args connected_agent =
     (Some lcm_result_text,
      connected_agent\<lparr>mcpClient := (mcpClient connected_agent)\<lparr>calls := [(''lcm'', lcm_args)]\<rparr>\<rparr>)"
proof -
  have "toolsMCP connected_agent \<noteq> None" "client (mcpClient connected_agent)"
    "calls (mcpClient connected_agent) = []"
    by (simp_all add: connected_agent_def)
  from executeFunction_remote[OF this(1,2), of lcm_world "''lcm''" lcm_args] this(3)
  show ?thesis by (simp add: lcm_callTool lcm_stringify)
qed

lemma lcm_run:
  "messages (run_state (processFunctionCall lcm_world (Suc 0) DEFAULT_MODEL lcm_call lcm_session)) =
     lcm_turn @ [plain ASSISTANT ''El mcm de 4 y 6 es 12'']"
proof -
  have ef: "executeFunction lcm_world (Some (JStr ''mcp_lcm'')) (parse_arguments lcm_world (Some lcm_args))
              (agent lcm_session) =
            (Some lcm_result_text,
             connected_agent\<lparr>mcpClient := (mcpClient connected_agent)\<lparr>calls := [(''lcm'', lcm_args)]\<rparr>\<rparr>)"
    by (simp add: lcm_parse_arguments lcm_session_def lcm_dispatch)
  have ms: "lcm_turn = messages lcm_session @
           [assistant_call (call_id (length (messages lcm_session))) (Some (JStr ''mcp_lcm''))
              (encode_arguments lcm_world (Some lcm_args)),
            tool_result (call_id (length (messages lcm_session))) (Some (JStr ''mcp_lcm''))
              (case Some lcm_result_text of None \<Rightarrow> NoResult | Some res \<Rightarrow> res)]"
    using call_id_2 by (simp add: lcm_turn_def lcm_session_def lcm_history_def lcm_encode_arguments)
  note st = processFunctionCall_step[OF lcm_call_function lcm_call_name lcm_call_arguments ef ms,
      of 0 DEFAULT_MODEL]
  obtain res a'' where ac: "agent_chat lcm_world DEFAULT_MODEL lcm_turn
            (connected_agent\<lparr>mcpClient := (mcpClient connected_agent)\<lparr>calls := [(''lcm'', lcm_args)]\<rparr>\<rparr>)
          = (res, a'')"
    by (cases "agent_chat lcm_world DEFAULT_MODEL lcm_turn
            (connected_agent\<lparr>mcpClient := (mcpClient connected_agent)\<lparr>calls := [(''lcm'', lcm_args)]\<rparr>\<rparr>)")
  with lcm_agent_chat[of DEFAULT_MODEL lcm_turn
      "connected_agent\<lparr>mcpClient := (mcpClient connected_agent)\<lparr>calls := [(''lcm'', lcm_args)]\<rparr>\<rparr>"]
  have "res = Inr (Text ''El mcm de 4 y 6 es 12'')" by simp
  with st ac show ?thesis by simp
qed

text \<open>
  The end-to-end scenario: the history has five messages, the fourth is the tool message
  and it answers the invocation of the third.
\<close>

theorem tool_results_paired_witness:
  "role (plain SYSTEM system_prompt) = SYSTEM \<and>
   role (plain USER ''compute lcm of 4 and 6'') = USER \<and>
   length (messages (run_state (processFunctionCall lcm_world (Suc 0) DEFAULT_MODEL lcm_call lcm_session))) = 5 \<and>
   role (messages (run_state (processFunctionCall lcm_world (Suc 0) DEFAULT_MODEL lcm_call lcm_session)) ! 3) = TOOL \<and>
   role (messages (run_state (processFunctionCall lcm_world (Suc 0) DEFAULT_MODEL lcm_call lcm_session)) ! 2) = ASSISTANT \<and>
   (\<exists>tc. tool_calls (messages (run_state (processFunctionCall lcm_world (Suc 0) DEFAULT_MODEL lcm_call lcm_session)) ! 2) = Some [tc] \<and>
         tool_call_id (messages (run_state (processFunctionCall lcm_world (Suc 0) DEFAULT_MODEL lcm_call lcm_session)) ! 3) = Some (tc_id tc))"
proof -
  define h where "h = messages (run_state (processFunctionCall lcm_world (Suc 0) DEFAULT_MODEL lcm_call lcm_session))"
  have hv: "h = lcm_turn @ [plain ASSISTANT ''El mcm de 4 y 6 es 12'']"
    unfolding h_def by (rule lcm_run)
  have len: "length h = 5" and i: "3 < length h" and r3: "role (h ! 3) = TOOL"
    by (simp_all add: hv lcm_turn_def lcm_history_def tool_result_def)
  have roles: "role (plain SYSTEM system_prompt) = SYSTEM" "role (plain USER ''compute lcm of 4 and 6'') = USER"
    "tool_calls (plain SYSTEM system_prompt) = None" "tool_calls (plain USER ''compute lcm of 4 and 6'') = None"
    by (simp_all add: plain_def)
  have m: "messages lcm_session = [plain SYSTEM system_prompt, plain USER ''compute lcm of 4 and 6'']"
    by (simp add: lcm_session_def lcm_history_def)
  from tool_results_paired[OF m roles h_def i] r3 len roles
  show ?thesis unfolding h_def by simp
qed



section \<open>Properties of the dispatch target\<close>


















lemma flaky_parse: "json_parse flaky_world = wire_parse"
  by (simp add: flaky_world_def wire_world_def)

lemma flaky_lines: "split_lines (trim line_call) = [line_call]"
  by (simp add: trim_def is_space_def line_call_def)

lemma flaky_process: "processResponse flaky_world line_call = FunctionCall call_f"
  by (simp add: processResponse_def flaky_lines decode_line_def flaky_parse wire_parse_call js_and_get_def call_f_def)

lemma flaky_first: "chat flaky_world 0 model msgs tool_defs = Inr (FunctionCall call_f)"
  by (simp add: chat_def try_catch_def flaky_world_def wire_world_def flaky_process[unfolded flaky_world_def wire_world_def])

lemma flaky_later: "chat flaky_world (Suc n) model msgs tool_defs = Inr (Text [])"
  by (simp add: chat_def try_catch_def flaky_world_def wire_world_def)

lemma failing_chat: "chat failing_world n model msgs tool_defs = Inr (Text [])"
  by (simp add: chat_def try_catch_def failing_world_def)

lemma call_f_function:
  "js_get (Some call_f) ''function'' =
     Inr (Some (JObj [(''name'', JStr ''f''), (''arguments'', JStr ''{}'')]))"
  by (simp add: call_f_def)

lemma call_f_name:
  "js_get (Some (JObj [(''name'', JStr ''f''), (''arguments'', JStr ''{}'')])) ''name'' = Inr (Some (JStr ''f''))"
  by simp

lemma call_f_arguments:
  "js_get (Some (JObj [(''name'', JStr ''f''), (''arguments'', JStr ''{}'')])) ''arguments'' =
     Inr (Some (JStr ''{}''))"
  by simp

lemma hola_goes_on: "to_lower ''hola'' \<notin> set [''/salir'', ''/exit'', ''/quit'']"
  by (simp add: to_lower_def)

section \<open>An empty answer to the follow-up request\<close>

lemma flaky_turn:
  assumes "requests a = [rq]"
  shows "\<exists>a''. processFunctionCall flaky_world (Suc 0) model call_f
            \<lparr>messages = [sysm, userm], agent = a\<rparr> =
         Returned \<lparr>messages = [sysm, userm,
          assistant_call ''call_2'' (Some (JStr ''f'')) (encode_arguments flaky_world (Some (JStr ''{}''))),
          tool_result ''call_2'' (Some (JStr ''f'')) (not_implemented ''f''),
          plain ASSISTANT []], agent = a''\<rparr>"
proof -
  define s where "s = \<lparr>messages = [sysm, userm], agent = a\<rparr>"
  have p: "\<not> starts_with ''mcp_'' ''f''" by (simp add: starts_with_def)
  have ef: "executeFunction flaky_world (Some (JStr ''f'')) (parse_arguments flaky_world (Some (JStr ''{}'')))
              (agent s) = (Some (not_implemented ''f''), a)"
    using executeFunction_local[OF p] by (simp add: s_def)
  define msgs where "msgs = messages s @
           [assistant_call (call_id (length (messages s))) (Some (JStr ''f''))
              (encode_arguments flaky_world (Some (JStr ''{}''))),
            tool_result (call_id (length (messages s))) (Some (JStr ''f''))
              (case Some (not_implemented ''f'') of None \<Rightarrow> NoResult | Some res \<Rightarrow> res)]"
  note st = processFunctionCall_step[OF call_f_function call_f_name call_f_arguments ef msgs_def,
      of 0 model]
  have "fst (agent_chat flaky_world model msgs a) = Inr (Text [])"
    using assms(1) by (simp add: agent_chat_def Let_def flaky_later)
  then obtain a'' where "agent_chat flaky_world model msgs a = (Inr (Text []), a'')"
    by (cases "agent_chat flaky_world model msgs a") simp
  with st have "processFunctionCall flaky_world (Suc 0) model call_f s =
      Returned \<lparr>messages = msgs @ [plain ASSISTANT []], agent = a''\<rparr>" by simp
  then have "processFunctionCall flaky_world (Suc 0) model call_f \<lparr>messages = [sysm, userm], agent = a\<rparr> =
         Returned \<lparr>messages = [sysm, userm,
          assistant_call ''call_2'' (Some (JStr ''f'')) (encode_arguments flaky_world (Some (JStr ''{}''))),
          tool_result ''call_2'' (Some (JStr ''f'')) (not_implemented ''f''),
          plain ASSISTANT []], agent = a''\<rparr>"
    by (simp add: msgs_def s_def call_id_2)
  then show ?thesis ..
qed

text \<open>
  C9 fails on the code. In a session where the first request is answered with an
  invocation and the follow-up request with status 500, \<^verbatim>\<open>chat\<close> returns the empty
  text and \<^verbatim>\<open>processFunctionCall\<close> appends an assistant message with empty content:
  it tests \<^verbatim>\<open>typeof finalResponse === 'string'\<close>, which the empty string passes. At
  the top level the same empty text appends nothing (\<^verbatim>\<open>if (response)\<close>).
\<close>

theorem empty_followup_appended:
  "messages (run_state (interactiveChat flaky_world (Suc 0) [DEFAULT_MODEL] [''hola''] new_OllamaAgent)) =
     [plain SYSTEM system_prompt, plain USER ''hola'',
      assistant_call ''call_2'' (Some (JStr ''f'')) (encode_arguments flaky_world (Some (JStr ''{}''))),
      tool_result ''call_2'' (Some (JStr ''f'')) (not_implemented ''f''),
      \<lparr>role = ASSISTANT, content = Some [], tool_calls = None, tool_call_id = None, name = None\<rparr>] \<and>
   messages (run_state (interactiveChat failing_world (Suc 0) [DEFAULT_MODEL] [''hola''] new_OllamaAgent)) =
     [plain SYSTEM system_prompt, plain USER ''hola'']"
proof -
  define msgs where "msgs = [plain SYSTEM system_prompt, plain USER ''hola'']"
  define rq where "rq = \<lparr>rq_model = DEFAULT_MODEL, rq_messages = msgs,
      rq_tools = Some (getAllTools builtInTools (toolsMCP new_OllamaAgent))\<rparr>"
  define a1 where "a1 = new_OllamaAgent\<lparr>requests := [rq]\<rparr>"
  have n: "requests new_OllamaAgent = []"
    by (simp add: new_OllamaAgent_def)
  have ac: "agent_chat flaky_world DEFAULT_MODEL msgs new_OllamaAgent = (Inr (FunctionCall call_f), a1)"
    using n by (simp add: agent_chat_def Let_def flaky_first a1_def rq_def)
  have a1: "requests a1 = [rq]"
    by (simp add: a1_def)
  from flaky_turn[OF a1, of DEFAULT_MODEL "plain SYSTEM system_prompt" "plain USER ''hola''"]
  obtain a'' where R: "processFunctionCall flaky_world (Suc 0) DEFAULT_MODEL call_f
            \<lparr>messages = msgs, agent = a1\<rparr> =
         Returned \<lparr>messages = [plain SYSTEM system_prompt, plain USER ''hola'',
          assistant_call ''call_2'' (Some (JStr ''f'')) (encode_arguments flaky_world (Some (JStr ''{}''))),
          tool_result ''call_2'' (Some (JStr ''f'')) (not_implemented ''f''),
          plain ASSISTANT []], agent = a''\<rparr>"
    unfolding msgs_def by blast
  have 1: "chat_loop flaky_world (Suc 0) DEFAULT_MODEL [''hola'']
             \<lparr>messages = [plain SYSTEM system_prompt], agent = new_OllamaAgent\<rparr> =
           Returned \<lparr>messages = [plain SYSTEM system_prompt, plain USER ''hola'',
          assistant_call ''call_2'' (Some (JStr ''f'')) (encode_arguments flaky_world (Some (JStr ''{}''))),
          tool_result ''call_2'' (Some (JStr ''f'')) (not_implemented ''f''),
          plain ASSISTANT []], agent = a''\<rparr>"
    using hola_goes_on ac R by (simp add: Let_def msgs_def)
  have ac2: "agent_chat failing_world DEFAULT_MODEL msgs new_OllamaAgent =
      (Inr (Text []), new_OllamaAgent\<lparr>requests := [rq]\<rparr>)"
    using n by (simp add: agent_chat_def Let_def failing_chat rq_def)
  have 2: "chat_loop failing_world (Suc 0) DEFAULT_MODEL [''hola'']
             \<lparr>messages = [plain SYSTEM system_prompt], agent = new_OllamaAgent\<rparr> =
           Returned \<lparr>messages = msgs, agent = new_OllamaAgent\<lparr>requests := [rq]\<rparr>\<rparr>"
    using hola_goes_on ac2 by (simp add: Let_def msgs_def)
  from 1 2 show ?thesis
    by (simp add: interactiveChat_def msgs_def plain_def)
qed

end
